theory Spec2Isabelle
  imports Main "HOL-Library.AList"
begin

section \<open>JavaScript values\<close>

text \<open>
  The extractor of \<^verbatim>\<open>src/extract-metadata.js\<close> produces plain JSON-like data. A value is
  \<^verbatim>\<open>undefined\<close>, \<^verbatim>\<open>null\<close>, a boolean, a number, a string, an array or an object.

  A number is represented by the text that \<^verbatim>\<open>String(n)\<close> prints for it (\<^verbatim>\<open>42\<close>,
  \<^verbatim>\<open>1.5\<close>, \<^verbatim>\<open>1e+21\<close>, \<^verbatim>\<open>Infinity\<close>): the extractor copies numbers, prints them and
  tests them for truth, and that text decides all three. Strings are lists of Isabelle
  characters, so the code units covered are 0..255 (Latin-1).

  An object is the list of its own properties in the order in which \<^verbatim>\<open>Object.entries\<close>
  enumerates them. \<open>VObj\<close> is an object whose prototype is \<^verbatim>\<open>Object.prototype\<close>, as
  \<^verbatim>\<open>{}\<close> and \<^verbatim>\<open>JSON.parse\<close> create it; \<open>VObjP p\<close> is an object whose prototype an
  assignment to \<^verbatim>\<open>__proto__\<close> has set to \<open>p\<close>, an object, an array or \<^verbatim>\<open>null\<close>.
\<close>

datatype jsval =
    VUndefined
  | VNull
  | VBool bool
  | VNum string
  | VStr string
  | VArr "jsval list"
  | VObj "(string \<times> jsval) list"
  | VObjP jsval "(string \<times> jsval) list"

type_synonym js_object = "(string \<times> jsval) list"

datatype js_error = TypeError | SyntaxError | OtherError

text \<open>
  JavaScript truthiness, and the operator \<^verbatim>\<open>a || b\<close>. The only falsy numbers are zero
  (also negative zero, which prints as \<^verbatim>\<open>0\<close>) and \<^verbatim>\<open>NaN\<close>.
\<close>

fun truthy :: "jsval \<Rightarrow> bool" where
  "truthy VUndefined = False"
| "truthy VNull = False"
| "truthy (VBool b) = b"
| "truthy (VNum n) = (n \<noteq> ''0'' \<and> n \<noteq> ''NaN'')"
| "truthy (VStr s) = (s \<noteq> [])"
| "truthy (VArr xs) = True"
| "truthy (VObj kvs) = True"
| "truthy (VObjP p kvs) = True"

definition js_or :: "jsval \<Rightarrow> jsval \<Rightarrow> jsval" where
  "js_or a b = (if truthy a then a else b)"

subsection \<open>Property keys\<close>

text \<open>Decimal rendering of an array index or an array length.\<close>

function digits :: "nat \<Rightarrow> string" where
  "digits n = (if n < 10 then [''0123456789'' ! n]
               else digits (n div 10) @ [''0123456789'' ! (n mod 10)])"
  by pat_completeness auto
termination
  by (relation "measure id") auto

declare digits.simps [simp del]

text \<open>
  An array index is a key that is the decimal text, without superfluous zeros, of an
  integer from 0 to \<^verbatim>\<open>2^32 - 2\<close>. The own keys of an object are enumerated with the
  array indices first, in ascending order, and the other keys after them, in the order
  of their creation.
\<close>

definition isDigit :: "char \<Rightarrow> bool" where
  "isDigit c = (48 \<le> (of_char c :: nat) \<and> (of_char c :: nat) \<le> 57)"

definition decimal :: "string \<Rightarrow> int" where
  "decimal s = foldl (\<lambda>a c. 10 * a + ((of_char c :: int) - 48)) 0 s"

definition arrayIndex :: "string \<Rightarrow> int option" where
  "arrayIndex s =
     (if s \<noteq> [] \<and> list_all isDigit s \<and> (s = ''0'' \<or> take 1 s \<noteq> ''0'')
         \<and> decimal s \<le> 4294967294
      then Some (decimal s) else None)"

text \<open>
  A new own property \<open>k\<close> takes its place in the enumeration: an array index before the
  first property that is not a smaller array index, any other key at the end.
\<close>

fun insertOwn :: "string \<Rightarrow> 'a \<Rightarrow> (string \<times> 'a) list \<Rightarrow> (string \<times> 'a) list" where
  "insertOwn k v [] = [(k, v)]"
| "insertOwn k v (p # ps) =
     (case arrayIndex k of
        None \<Rightarrow> p # insertOwn k v ps
      | Some n \<Rightarrow>
          (case arrayIndex (fst p) of
             None \<Rightarrow> (k, v) # p # ps
           | Some m \<Rightarrow> if m < n then p # insertOwn k v ps else (k, v) # p # ps))"

text \<open>
  Creating or overwriting the own property \<open>k\<close> (\<^verbatim>\<open>CreateDataProperty\<close>): an existing
  property keeps its place.
\<close>

definition defineOwn :: "string \<Rightarrow> 'a \<Rightarrow> (string \<times> 'a) list \<Rightarrow> (string \<times> 'a) list" where
  "defineOwn k v ps =
     (case map_of ps k of
        Some old \<Rightarrow> AList.update k v ps
      | None \<Rightarrow> insertOwn k v ps)"

subsection \<open>Reading and writing properties\<close>

text \<open>
  The search for the property \<open>k\<close> along the prototype chain of a value. It ends at a
  data property (\<open>Found\<close>), at the built-in prototypes (\<open>Builtin\<close>: the property was not
  found before \<^verbatim>\<open>Array.prototype\<close>, \<^verbatim>\<open>String.prototype\<close>, ... and
  \<^verbatim>\<open>Object.prototype\<close>) or at a \<^verbatim>\<open>null\<close> prototype (\<open>EndOfChain\<close>). An array has its
  elements and its \<^verbatim>\<open>length\<close> as own properties, a string its characters and its
  \<^verbatim>\<open>length\<close>.
\<close>

datatype found = Found jsval | Builtin | EndOfChain

fun js_find :: "jsval \<Rightarrow> string \<Rightarrow> found" where
  "js_find (VObj kvs) k = (case map_of kvs k of Some v \<Rightarrow> Found v | None \<Rightarrow> Builtin)"
| "js_find (VObjP p kvs) k = (case map_of kvs k of Some v \<Rightarrow> Found v | None \<Rightarrow> js_find p k)"
| "js_find (VArr xs) k =
     (case arrayIndex k of
        Some i \<Rightarrow> if i < int (length xs) then Found (xs ! nat i) else Builtin
      | None \<Rightarrow> if k = ''length'' then Found (VNum (digits (length xs))) else Builtin)"
| "js_find (VStr s) k =
     (case arrayIndex k of
        Some i \<Rightarrow> if i < int (length s) then Found (VStr [s ! nat i]) else Builtin
      | None \<Rightarrow> if k = ''length'' then Found (VNum (digits (length s))) else Builtin)"
| "js_find (VNum n) k = Builtin"
| "js_find (VBool b) k = Builtin"
| "js_find VNull k = EndOfChain"
| "js_find VUndefined k = EndOfChain"

text \<open>
  The property read \<^verbatim>\<open>v?.k\<close> (\<^verbatim>\<open>undefined\<close> on \<^verbatim>\<open>null\<close> and \<^verbatim>\<open>undefined\<close>; where the
  source writes \<^verbatim>\<open>v.k\<close> and \<open>v\<close> can be \<^verbatim>\<open>null\<close>, the caller raises the TypeError).
  What a built-in prototype holds is a built-in function, or for \<^verbatim>\<open>__proto__\<close> the
  accessor that returns the prototype of the object read. The built-in functions and
  the built-in prototypes themselves are not values of this model and read as
  \<^verbatim>\<open>undefined\<close>: the extractor never stores one, and where it can meet one
  (\<^verbatim>\<open>argTypes?.[key]?.description\<close>, \<^verbatim>\<open>indexData.entries || {}\<close> on an array) it
  reads a property from it that no built-in has, or enumerates it, which gives nothing.
\<close>

fun prototypeOf :: "jsval \<Rightarrow> jsval" where
  "prototypeOf (VObjP p kvs) = p"
| "prototypeOf v = VUndefined"

definition js_get :: "jsval \<Rightarrow> string \<Rightarrow> jsval" where
  "js_get v k =
     (case js_find v k of
        Found x \<Rightarrow> x
      | Builtin \<Rightarrow> if k = ''__proto__'' then prototypeOf v else VUndefined
      | EndOfChain \<Rightarrow> VUndefined)"

text \<open>
  The extractor itself can add two properties to \<^verbatim>\<open>Object.prototype\<close>: the statement
  \<^verbatim>\<open>__proto__.args = {...}\<close> of a story file makes its visitor execute
  \<^verbatim>\<open>stories['__proto__'].args = args\<close>, and \<^verbatim>\<open>stories['__proto__']\<close> is
  \<^verbatim>\<open>Object.prototype\<close>; likewise for \<^verbatim>\<open>storyName\<close>. From then on every object of
  the process inherits them. \<open>pollution\<close> is that part of the state of
  \<^verbatim>\<open>Object.prototype\<close>; \<open>js_get_in\<close> is the property read that sees it.
\<close>

record pollution =
  pArgs :: "jsval option"
  pStoryName :: "jsval option"

definition clean :: pollution where
  "clean = \<lparr>pArgs = None, pStoryName = None\<rparr>"

definition js_get_in :: "pollution \<Rightarrow> jsval \<Rightarrow> string \<Rightarrow> jsval" where
  "js_get_in pol v k =
     (case js_find v k of
        Found x \<Rightarrow> x
      | Builtin \<Rightarrow>
          if k = ''args'' then (case pArgs pol of Some x \<Rightarrow> x | None \<Rightarrow> VUndefined)
          else if k = ''storyName''
          then (case pStoryName pol of Some x \<Rightarrow> x | None \<Rightarrow> VUndefined)
          else js_get v k
      | EndOfChain \<Rightarrow> VUndefined)"

text \<open>The own properties of an object, and the object with other own properties.\<close>

fun ownProps :: "jsval \<Rightarrow> js_object" where
  "ownProps (VObj kvs) = kvs"
| "ownProps (VObjP p kvs) = kvs"
| "ownProps v = []"

fun withProps :: "jsval \<Rightarrow> js_object \<Rightarrow> jsval" where
  "withProps (VObj kvs) kvs' = VObj kvs'"
| "withProps (VObjP p kvs) kvs' = VObjP p kvs'"
| "withProps v kvs' = v"

fun isObject :: "jsval \<Rightarrow> bool" where
  "isObject (VObj kvs) = True"
| "isObject (VObjP p kvs) = True"
| "isObject (VArr xs) = True"
| "isObject v = False"

text \<open>The search for \<open>k\<close> above an object, in its prototype chain.\<close>

fun findAbove :: "jsval \<Rightarrow> string \<Rightarrow> found" where
  "findAbove (VObjP p kvs) k = js_find p k"
| "findAbove v k = Builtin"

text \<open>
  The assignment \<^verbatim>\<open>o[k] = x\<close> on an object \<open>o\<close> that \<^verbatim>\<open>{}\<close> created (every object
  the extractor writes to is one). An own property is overwritten. Otherwise the chain
  above \<open>o\<close> decides: a data property there, or the end of the chain, lets the assignment
  create an own property of \<open>o\<close>; so does a built-in prototype, except for the key
  \<^verbatim>\<open>__proto__\<close>, whose setter makes \<open>x\<close> the prototype of \<open>o\<close> when \<open>x\<close> is an object or
  \<^verbatim>\<open>null\<close> and does nothing otherwise.
\<close>

definition js_put :: "jsval \<Rightarrow> string \<Rightarrow> jsval \<Rightarrow> jsval" where
  "js_put o' k x =
     (case map_of (ownProps o') k of
        Some old \<Rightarrow> withProps o' (AList.update k x (ownProps o'))
      | None \<Rightarrow>
          (case findAbove o' k of
             Found y \<Rightarrow> withProps o' (insertOwn k x (ownProps o'))
           | EndOfChain \<Rightarrow> withProps o' (insertOwn k x (ownProps o'))
           | Builtin \<Rightarrow>
               if k = ''__proto__''
               then (if isObject x \<or> x = VNull then VObjP x (ownProps o') else o')
               else withProps o' (insertOwn k x (ownProps o'))))"

text \<open>
  \<^verbatim>\<open>Object.entries(v)\<close> for a value that is not \<^verbatim>\<open>null\<close> or \<^verbatim>\<open>undefined\<close>: the own
  properties of an object, the indexed elements of an array, the indexed characters of
  a string, nothing for a number or a boolean.
\<close>

fun js_entries :: "jsval \<Rightarrow> js_object" where
  "js_entries (VObj kvs) = kvs"
| "js_entries (VObjP p kvs) = kvs"
| "js_entries (VArr xs) = zip (map digits [0..<length xs]) xs"
| "js_entries (VStr s) = zip (map digits [0..<length s]) (map (\<lambda>c. VStr [c]) s)"
| "js_entries v = []"

subsection \<open>Printing\<close>

fun join_comma :: "string list \<Rightarrow> string" where
  "join_comma [] = []"
| "join_comma [s] = s"
| "join_comma (s # t # ss) = s @ '','' @ join_comma (t # ss)"

text \<open>
  \<^verbatim>\<open>String(v)\<close>, which a template literal \<^verbatim>\<open>`${v}`\<close> and a computed property key
  apply. The extractor applies it to strings, numbers and booleans only: a title comes
  from the \<^verbatim>\<open>value\<close> of a literal, a key from a \<^verbatim>\<open>name\<close> or such a \<^verbatim>\<open>value\<close>. The
  other equations give what \<^verbatim>\<open>String\<close> prints for \<^verbatim>\<open>undefined\<close>, \<^verbatim>\<open>null\<close>, an array
  of such values and an object without conversion methods of its own.
\<close>

fun to_js_string :: "jsval \<Rightarrow> string" where
  "to_js_string VUndefined = ''undefined''"
| "to_js_string VNull = ''null''"
| "to_js_string (VBool b) = (if b then ''true'' else ''false'')"
| "to_js_string (VNum n) = n"
| "to_js_string (VStr s) = s"
| "to_js_string (VArr xs) =
     join_comma (map (\<lambda>x. if x = VNull \<or> x = VUndefined then [] else to_js_string x) xs)"
| "to_js_string (VObj kvs) = ''[object Object]''"
| "to_js_string (VObjP p kvs) = ''[object Object]''"

section \<open>Syntax trees\<close>

text \<open>
  The Babel node kinds that the extractor distinguishes. A numeric literal carries its
  value as a number of the model, that is as the text \<^verbatim>\<open>String\<close> prints for it.
  \<open>BigIntLiteral\<close> is the one kind outside the \<^verbatim>\<open>switch\<close> of \<^verbatim>\<open>extractValue\<close> that
  carries a \<^verbatim>\<open>value\<close> field; \<open>OtherNode\<close> stands for every remaining kind (calls,
  template literals, unary expressions, ...), none of which has a \<^verbatim>\<open>name\<close> or
  \<^verbatim>\<open>value\<close> field. An array element is absent (\<open>None\<close>) at a hole such as
  \<^verbatim>\<open>[1, , 2]\<close>.
\<close>

datatype node =
    StringLiteral string
  | NumericLiteral string
  | BooleanLiteral bool
  | NullLiteral
  | ObjectExpression "member list"
  | ArrayExpression "node option list"
  | ArrowFunctionExpression
  | FunctionExpression
  | JSXElement
  | JSXFragment
  | Identifier string
  | TSAsExpression node
  | MemberExpression node node
  | BigIntLiteral string
  | OtherNode
and member =
    ObjectProperty node node
  | ObjectMethod node
  | SpreadElement node

text \<open>The fields \<^verbatim>\<open>node.name\<close> and \<^verbatim>\<open>node.value\<close>, \<^verbatim>\<open>undefined\<close> where a kind has none.\<close>

fun node_name :: "node \<Rightarrow> jsval" where
  "node_name (Identifier n) = VStr n"
| "node_name _ = VUndefined"

fun node_value :: "node \<Rightarrow> jsval" where
  "node_value (StringLiteral s) = VStr s"
| "node_value (NumericLiteral n) = VNum n"
| "node_value (BooleanLiteral b) = VBool b"
| "node_value (BigIntLiteral s) = VStr s"
| "node_value _ = VUndefined"

text \<open>\<^verbatim>\<open>prop.key\<close> and \<^verbatim>\<open>prop.value\<close> of a member of an object literal.\<close>

fun member_key :: "member \<Rightarrow> node option" where
  "member_key (ObjectProperty k v) = Some k"
| "member_key (ObjectMethod k) = Some k"
| "member_key (SpreadElement a) = None"

fun member_value :: "member \<Rightarrow> node option" where
  "member_value (ObjectProperty k v) = Some v"
| "member_value (ObjectMethod k) = None"
| "member_value (SpreadElement a) = None"

section \<open>The value normalizer\<close>

text \<open>
  \<^verbatim>\<open>extractValue\<close> and \<^verbatim>\<open>extractObjectLiteral\<close> (lines 333-392). \<open>extractProps\<close> is
  the body of \<^verbatim>\<open>node.properties.forEach\<close>, threading \<^verbatim>\<open>result\<close>: a member without
  key, with a falsy key or without value leaves \<^verbatim>\<open>result\<close> as it is, any other one
  executes \<^verbatim>\<open>result[key] = extractValue(prop.value)\<close>. The guards \<^verbatim>\<open>if (!node)\<close> apply
  to an absent node only: \<^verbatim>\<open>extractValue\<close> meets one at the hole of an array
  (\<open>extractElements\<close>), \<^verbatim>\<open>extractObjectLiteral\<close> is always called on a node.
\<close>

fun extractValue :: "node \<Rightarrow> jsval"
  and extractObjectLiteral :: "node \<Rightarrow> jsval"
  and extractProps :: "member list \<Rightarrow> jsval \<Rightarrow> jsval"
  and extractElements :: "node option list \<Rightarrow> jsval list"
where
  "extractValue (StringLiteral s) = VStr s"
| "extractValue (NumericLiteral n) = VNum n"
| "extractValue (BooleanLiteral b) = VBool b"
| "extractValue NullLiteral = VNull"
| "extractValue (ObjectExpression ps) = extractObjectLiteral (ObjectExpression ps)"
| "extractValue (ArrayExpression els) = VArr (filter (\<lambda>v. v \<noteq> VNull) (extractElements els))"
| "extractValue ArrowFunctionExpression = VStr ''[Function]''"
| "extractValue FunctionExpression = VStr ''[Function]''"
| "extractValue JSXElement = VStr ''[JSX Element]''"
| "extractValue JSXFragment = VStr ''[JSX Element]''"
| "extractValue (Identifier n) = VStr n"
| "extractValue (TSAsExpression e) = extractValue e"
| "extractValue (MemberExpression obj prop) = VNull"
| "extractValue (BigIntLiteral s) = VNull"
| "extractValue OtherNode = VNull"
| "extractObjectLiteral (TSAsExpression e) = extractObjectLiteral e"
| "extractObjectLiteral (ObjectExpression ps) = extractProps ps (VObj [])"
| "extractObjectLiteral _ = VObj []"
| "extractProps [] result = result"
| "extractProps (ObjectProperty k v # ps) result =
     (let key = js_or (node_name k) (node_value k)
      in if \<not> truthy key then extractProps ps result
         else extractProps ps (js_put result (to_js_string key) (extractValue v)))"
| "extractProps (ObjectMethod k # ps) result = extractProps ps result"
| "extractProps (SpreadElement a # ps) result = extractProps ps result"
| "extractElements [] = []"
| "extractElements (None # els) = VNull # extractElements els"
| "extractElements (Some el # els) = extractValue el # extractElements els"

section \<open>Story ids\<close>

text \<open>
  \<^verbatim>\<open>generateStoryId\<close> (lines 397-403): the template string \<^verbatim>\<open>`${title}--${name}`\<close>,
  lower-cased, every run of white space replaced by one hyphen, every slash replaced by
  a hyphen, and every character outside \<^verbatim>\<open>[a-z0-9-]\<close> removed.
\<close>

definition toLowerChar :: "char \<Rightarrow> char" where
  "toLowerChar c =
     (let n = (of_char c :: nat)
      in if (65 \<le> n \<and> n \<le> 90) \<or> (192 \<le> n \<and> n \<le> 222 \<and> n \<noteq> 215)
         then char_of (n + 32) else c)"

definition toLowerCase :: "string \<Rightarrow> string" where
  "toLowerCase s = map toLowerChar s"

text \<open>The class \<^verbatim>\<open>\s\<close> on the code units 0..255: tab, LF, VT, FF, CR, space, NBSP.\<close>

definition isSpace :: "char \<Rightarrow> bool" where
  "isSpace c = (let n = (of_char c :: nat) in (9 \<le> n \<and> n \<le> 13) \<or> n = 32 \<or> n = 160)"

function replaceSpaces :: "string \<Rightarrow> string" where
  "replaceSpaces [] = []"
| "replaceSpaces (c # cs) =
     (if isSpace c then CHR ''-'' # replaceSpaces (dropWhile isSpace cs)
      else c # replaceSpaces cs)"
  by pat_completeness auto
termination
  by (relation "measure length") (auto simp: le_imp_less_Suc length_dropWhile_le)

definition replaceSlashes :: "string \<Rightarrow> string" where
  "replaceSlashes s = map (\<lambda>c. if c = CHR ''/'' then CHR ''-'' else c) s"

definition isSlugChar :: "char \<Rightarrow> bool" where
  "isSlugChar c =
     (let n = (of_char c :: nat)
      in (97 \<le> n \<and> n \<le> 122) \<or> (48 \<le> n \<and> n \<le> 57) \<or> n = 45)"

definition stripUnsafe :: "string \<Rightarrow> string" where
  "stripUnsafe s = filter isSlugChar s"

definition generateStoryId :: "jsval \<Rightarrow> jsval \<Rightarrow> string" where
  "generateStoryId title name =
     stripUnsafe (replaceSlashes (replaceSpaces (toLowerCase
       (to_js_string title @ ''--'' @ to_js_string name))))"

section \<open>Actions\<close>

definition startsWith :: "string \<Rightarrow> string \<Rightarrow> bool" where
  "startsWith s p = (take (length p) s = p)"

text \<open>
  \<^verbatim>\<open>extractActionsFromArgs\<close> (lines 408-433). The first loop runs over the entries of
  \<^verbatim>\<open>args\<close>, the second over the entries of \<^verbatim>\<open>argTypes\<close>; both execute
  \<^verbatim>\<open>actions[key] = {...}\<close>. In the second loop \<^verbatim>\<open>config.action\<close> is a plain property
  read, so a \<^verbatim>\<open>null\<close> entry raises a TypeError. \<^verbatim>\<open>argTypes?.[key]\<close> reads a key that
  the file chooses, so it can read what \<^verbatim>\<open>Object.prototype\<close> has been given.
\<close>

fun actionsFromArgs :: "pollution \<Rightarrow> js_object \<Rightarrow> jsval \<Rightarrow> jsval \<Rightarrow> jsval" where
  "actionsFromArgs pol [] argTypes actions = actions"
| "actionsFromArgs pol ((key, val) # es) argTypes actions =
     (if startsWith key ''on'' \<or> val = VStr ''[Function]''
      then actionsFromArgs pol es argTypes
             (js_put actions key (VObj
                [(''name'', VStr key),
                 (''description'',
                    js_or (js_get (js_get_in pol argTypes key) ''description'') (VStr [])),
                 (''action'', VStr key)]))
      else actionsFromArgs pol es argTypes actions)"

fun actionsFromArgTypes :: "js_object \<Rightarrow> jsval \<Rightarrow> js_error + jsval" where
  "actionsFromArgTypes [] actions = Inr actions"
| "actionsFromArgTypes ((key, config) # es) actions =
     (if config = VNull \<or> config = VUndefined then Inl TypeError
      else if truthy (js_get config ''action'')
              \<or> js_get (js_get config ''table'') ''category'' = VStr ''events''
      then actionsFromArgTypes es
             (js_put actions key (VObj
                [(''name'', VStr key),
                 (''description'', js_or (js_get config ''description'') (VStr [])),
                 (''action'',
                    (case js_get config ''action'' of VStr a \<Rightarrow> VStr a | _ \<Rightarrow> VStr key))]))
      else actionsFromArgTypes es actions)"

definition extractActionsFromArgs :: "pollution \<Rightarrow> jsval \<Rightarrow> jsval \<Rightarrow> js_error + jsval" where
  "extractActionsFromArgs pol args argTypes =
     actionsFromArgTypes (js_entries argTypes)
       (actionsFromArgs pol (js_entries args) argTypes (VObj []))"

section \<open>The meta object of a story file\<close>

record meta =
  meta_title :: jsval
  meta_component :: jsval
  meta_argTypes :: jsval
  meta_parameters :: jsval
  meta_tags :: jsval

text \<open>
  \<^verbatim>\<open>prop.value.elements.map(el => el.value)\<close> of the \<^verbatim>\<open>tags\<close> branch: a hole in the
  array is \<^verbatim>\<open>null\<close>, and reading \<^verbatim>\<open>null.value\<close> raises a TypeError.
\<close>

fun tagValues :: "node option list \<Rightarrow> js_error + jsval list" where
  "tagValues [] = Inr []"
| "tagValues (None # els) = Inl TypeError"
| "tagValues (Some el # els) =
     (case tagValues els of Inl e \<Rightarrow> Inl e | Inr vs \<Rightarrow> Inr (node_value el # vs))"

text \<open>\<^verbatim>\<open>prop.key?.name\<close>, \<^verbatim>\<open>prop.value?.value\<close> and \<^verbatim>\<open>prop.value?.name\<close>.\<close>

definition key_name :: "member \<Rightarrow> jsval" where
  "key_name p = (case member_key p of None \<Rightarrow> VUndefined | Some k \<Rightarrow> node_name k)"

definition value_value :: "member \<Rightarrow> jsval" where
  "value_value p = (case member_value p of None \<Rightarrow> VUndefined | Some v \<Rightarrow> node_value v)"

definition value_name :: "member \<Rightarrow> jsval" where
  "value_name p = (case member_value p of None \<Rightarrow> VUndefined | Some v \<Rightarrow> node_name v)"

text \<open>
  \<^verbatim>\<open>extractMetaObject\<close> (lines 299-328); \<open>metaProps\<close> is the body of its
  \<^verbatim>\<open>forEach\<close>, one \<^verbatim>\<open>if\<close>/\<^verbatim>\<open>else if\<close> chain per property. The values of
  \<^verbatim>\<open>title\<close> and \<^verbatim>\<open>tags\<close> are read from the \<^verbatim>\<open>value\<close> fields of literals, so they
  are strings, numbers or booleans.
\<close>

fun isObjectExpression :: "node option \<Rightarrow> bool" where
  "isObjectExpression (Some (ObjectExpression ps)) = True"
| "isObjectExpression _ = False"

fun arrayElements :: "node option \<Rightarrow> node option list option" where
  "arrayElements (Some (ArrayExpression els)) = Some els"
| "arrayElements _ = None"

definition metaTags :: "member \<Rightarrow> (js_error + jsval) option" where
  "metaTags p =
     (if key_name p = VStr ''tags'' then
        (case arrayElements (member_value p) of
           None \<Rightarrow> None
         | Some els \<Rightarrow>
             Some (case tagValues els of
                     Inl e \<Rightarrow> Inl e
                   | Inr vs \<Rightarrow> Inr (VArr (filter truthy vs))))
      else None)"

fun metaProps :: "member list \<Rightarrow> meta \<Rightarrow> js_error + meta" where
  "metaProps [] m = Inr m"
| "metaProps (p # ps) m =
     (if key_name p = VStr ''title'' \<and> truthy (value_value p)
      then metaProps ps (m\<lparr>meta_title := value_value p\<rparr>)
      else if key_name p = VStr ''argTypes'' \<and> isObjectExpression (member_value p)
      then metaProps ps (m\<lparr>meta_argTypes := extractObjectLiteral (the (member_value p))\<rparr>)
      else if key_name p = VStr ''parameters'' \<and> isObjectExpression (member_value p)
      then metaProps ps (m\<lparr>meta_parameters := extractObjectLiteral (the (member_value p))\<rparr>)
      else case metaTags p of
        Some (Inl e) \<Rightarrow> Inl e
      | Some (Inr ts) \<Rightarrow> metaProps ps (m\<lparr>meta_tags := ts\<rparr>)
      | None \<Rightarrow>
          if key_name p = VStr ''component''
          then metaProps ps (m\<lparr>meta_component := js_or (value_name p) VNull\<rparr>)
          else metaProps ps m)"

definition emptyMeta :: meta where
  "emptyMeta = \<lparr>meta_title = VStr [], meta_component = VNull, meta_argTypes = VObj [],
                 meta_parameters = VObj [], meta_tags = VArr []\<rparr>"

fun extractMetaObject :: "node \<Rightarrow> js_error + meta" where
  "extractMetaObject (ObjectExpression ps) = metaProps ps emptyMeta"
| "extractMetaObject (TSAsExpression e) = extractMetaObject e"
| "extractMetaObject _ = Inr emptyMeta"

section \<open>Traversal of one story file\<close>

text \<open>
  \<^verbatim>\<open>traverse(ast, visitors)\<close> calls the three visitors of lines 184-239 on the nodes of
  their kind, in the order of the traversal. A parsed file is that sequence of nodes.
  An exported variable declaration carries the \<^verbatim>\<open>id\<close> of each declarator, a function
  declaration its optional \<^verbatim>\<open>id\<close>; an export without declaration
  (\<^verbatim>\<open>export { a, b }\<close>) carries \<open>None\<close>; an assignment carries \<^verbatim>\<open>left\<close> and
  \<^verbatim>\<open>right\<close>.
\<close>

datatype exported =
    VariableDeclaration "node list"
  | FunctionDeclaration "node option"
  | OtherDeclaration

datatype visit =
    ExportDefaultDeclaration node
  | ExportNamedDeclaration "exported option"
  | AssignmentExpression node node

record story_data =
  sd_name :: string
  sd_args :: jsval
  sd_storyName :: jsval

type_synonym story_table = "(string \<times> story_data) list"

text \<open>
  The state of the traversal of one file: \<^verbatim>\<open>metaExport\<close>, the own properties of
  \<^verbatim>\<open>stories\<close>, and whether the prototype of \<^verbatim>\<open>stories\<close> is a story object.
  \<^verbatim>\<open>stories\<close> starts as \<^verbatim>\<open>{}\<close>; the export of a story named \<^verbatim>\<open>__proto__\<close>
  executes \<^verbatim>\<open>stories['__proto__'] = {name, args, storyName}\<close>, which makes that object
  the prototype of \<^verbatim>\<open>stories\<close> and adds no property. Of such a prototype only this
  matters later: its \<^verbatim>\<open>name\<close> and \<^verbatim>\<open>storyName\<close> are truthy strings, numbers or
  booleans, its \<^verbatim>\<open>args\<close> is an object, and it is not among the entries of \<^verbatim>\<open>stories\<close>.
\<close>

record traversal =
  t_meta :: meta
  t_stories :: story_table
  t_protoIsStory :: bool

text \<open>\<^verbatim>\<open>stories[storyName] = { name, args: {}, storyName }\<close> when the name is truthy.\<close>

definition declareStory :: "jsval \<Rightarrow> traversal \<Rightarrow> traversal" where
  "declareStory n t =
     (case n of
        VStr storyName \<Rightarrow>
          if storyName = [] then t
          else if storyName = ''__proto__'' \<and> map_of (t_stories t) storyName = None
          then t\<lparr>t_protoIsStory := True\<rparr>
          else t\<lparr>t_stories :=
                   defineOwn storyName
                     \<lparr>sd_name = storyName, sd_args = VObj [], sd_storyName = VStr storyName\<rparr>
                     (t_stories t)\<rparr>
      | _ \<Rightarrow> t)"

fun declareStories :: "node list \<Rightarrow> traversal \<Rightarrow> traversal" where
  "declareStories [] t = t"
| "declareStories (d # ds) t = declareStories ds (declareStory (node_name d) t)"

text \<open>
  What \<^verbatim>\<open>stories[storyName]\<close> reads, as far as the two assignments of the
  \<^verbatim>\<open>AssignmentExpression\<close> visitor depend on it: an entry of \<^verbatim>\<open>stories\<close>; a string,
  number or boolean (\<^verbatim>\<open>name\<close> and \<^verbatim>\<open>storyName\<close> of a story prototype, a
  \<^verbatim>\<open>storyName\<close> given to \<^verbatim>\<open>Object.prototype\<close>); \<^verbatim>\<open>Object.prototype\<close> itself
  (\<^verbatim>\<open>__proto__\<close> when the prototype of \<^verbatim>\<open>stories\<close> is the initial one); the
  \<^verbatim>\<open>args\<close> object given to \<^verbatim>\<open>Object.prototype\<close>; an object that no entry of
  \<^verbatim>\<open>stories\<close> and no later read depends on (the story prototype, read as
  \<^verbatim>\<open>__proto__\<close>, and its \<^verbatim>\<open>args\<close>); or nothing of consequence: \<^verbatim>\<open>undefined\<close>, or
  a built-in method of \<^verbatim>\<open>Object.prototype\<close> such as \<^verbatim>\<open>toString\<close>, on which the
  assignment sets a property that nothing reads.
\<close>

datatype target =
    OwnStory story_data
  | Primitive
  | ObjectPrototype
  | PollutedArgs jsval
  | Unobserved
  | NoTarget

definition readStory :: "pollution \<Rightarrow> traversal \<Rightarrow> string \<Rightarrow> target" where
  "readStory pol t storyName =
     (case map_of (t_stories t) storyName of
        Some sd \<Rightarrow> OwnStory sd
      | None \<Rightarrow>
          if t_protoIsStory t \<and> (storyName = ''name'' \<or> storyName = ''storyName'')
          then Primitive
          else if t_protoIsStory t \<and> (storyName = ''args'' \<or> storyName = ''__proto__'')
          then Unobserved
          else if storyName = ''__proto__'' then ObjectPrototype
          else if storyName = ''args''
          then (case pArgs pol of Some v \<Rightarrow> PollutedArgs v | None \<Rightarrow> NoTarget)
          else if storyName = ''storyName''
          then (case pStoryName pol of Some v \<Rightarrow> Primitive | None \<Rightarrow> NoTarget)
          else NoTarget)"

text \<open>
  The two \<^verbatim>\<open>if\<close> statements of the \<^verbatim>\<open>AssignmentExpression\<close> visitor (lines 218-237):
  \<^verbatim>\<open>stories[storyName].args = args\<close> and \<^verbatim>\<open>stories[storyName].storyName = displayName\<close>.
  An entry of \<^verbatim>\<open>stories\<close> is changed in place. The module is in strict mode, so setting
  a property on a string, number or boolean raises a TypeError. Setting it on
  \<^verbatim>\<open>Object.prototype\<close> changes the pollution, which stays when a later statement of
  the file raises.
\<close>

definition assignArgs ::
  "node \<Rightarrow> node \<Rightarrow> node \<Rightarrow> pollution \<times> traversal \<Rightarrow> pollution \<times> (js_error + traversal)" where
  "assignArgs obj prop right st =
     (let pol = fst st; t = snd st; storyName = to_js_string (node_name obj);
          args = extractObjectLiteral right
      in if node_name prop = VStr ''args'' \<and> truthy (node_name obj) then
           (case readStory pol t storyName of
              OwnStory sd \<Rightarrow>
                (pol, Inr (t\<lparr>t_stories :=
                   AList.update storyName (sd\<lparr>sd_args := args\<rparr>) (t_stories t)\<rparr>))
            | Primitive \<Rightarrow> (pol, Inl TypeError)
            | ObjectPrototype \<Rightarrow> (pol\<lparr>pArgs := Some args\<rparr>, Inr t)
            | PollutedArgs v \<Rightarrow> (pol\<lparr>pArgs := Some (js_put v ''args'' args)\<rparr>, Inr t)
            | Unobserved \<Rightarrow> (pol, Inr t)
            | NoTarget \<Rightarrow> (pol, Inr t))
         else (pol, Inr t))"

definition assignStoryName ::
  "node \<Rightarrow> node \<Rightarrow> node \<Rightarrow> pollution \<times> traversal \<Rightarrow> pollution \<times> (js_error + traversal)" where
  "assignStoryName obj prop right st =
     (let pol = fst st; t = snd st; storyName = to_js_string (node_name obj);
          displayName = node_value right
      in if node_name prop = VStr ''storyName'' \<and> truthy (node_name obj)
            \<and> truthy displayName then
           (case readStory pol t storyName of
              OwnStory sd \<Rightarrow>
                (pol, Inr (t\<lparr>t_stories :=
                   AList.update storyName (sd\<lparr>sd_storyName := displayName\<rparr>) (t_stories t)\<rparr>))
            | Primitive \<Rightarrow> (pol, Inl TypeError)
            | ObjectPrototype \<Rightarrow> (pol\<lparr>pStoryName := Some displayName\<rparr>, Inr t)
            | PollutedArgs v \<Rightarrow>
                (pol\<lparr>pArgs := Some (js_put v ''storyName'' displayName)\<rparr>, Inr t)
            | Unobserved \<Rightarrow> (pol, Inr t)
            | NoTarget \<Rightarrow> (pol, Inr t))
         else (pol, Inr t))"

fun visitNode :: "visit \<Rightarrow> pollution \<times> traversal \<Rightarrow> pollution \<times> (js_error + traversal)" where
  "visitNode (ExportDefaultDeclaration d) (pol, t) =
     (case extractMetaObject d of
        Inl e \<Rightarrow> (pol, Inl e)
      | Inr m \<Rightarrow> (pol, Inr (t\<lparr>t_meta := m\<rparr>)))"
| "visitNode (ExportNamedDeclaration (Some (VariableDeclaration ds))) (pol, t) =
     (pol, Inr (declareStories ds t))"
| "visitNode (ExportNamedDeclaration (Some (FunctionDeclaration (Some i)))) (pol, t) =
     (pol, Inr (declareStory (node_name i) t))"
| "visitNode (ExportNamedDeclaration _) (pol, t) = (pol, Inr t)"
| "visitNode (AssignmentExpression (MemberExpression obj prop) right) (pol, t) =
     (case assignArgs obj prop right (pol, t) of
        (pol', Inl e) \<Rightarrow> (pol', Inl e)
      | (pol', Inr t') \<Rightarrow> assignStoryName obj prop right (pol', t'))"
| "visitNode (AssignmentExpression _ right) (pol, t) = (pol, Inr t)"

fun traverse :: "visit list \<Rightarrow> pollution \<times> traversal \<Rightarrow> pollution \<times> (js_error + traversal)" where
  "traverse [] (pol, t) = (pol, Inr t)"
| "traverse (v # vs) (pol, t) =
     (case visitNode v (pol, t) of
        (pol', Inl e) \<Rightarrow> (pol', Inl e)
      | (pol', Inr t') \<Rightarrow> traverse vs (pol', t'))"

section \<open>Story records\<close>

text \<open>
  The object literal of lines 247-276. \<^verbatim>\<open>storyData.args\<close> and the \<^verbatim>\<open>argTypes\<close> and
  \<^verbatim>\<open>parameters\<close> of the meta object are always objects, hence truthy, so the
  \<^verbatim>\<open>|| {}\<close> alternatives never apply.
\<close>

definition storyRecord ::
  "meta \<Rightarrow> string \<Rightarrow> string \<Rightarrow> string \<Rightarrow> string \<Rightarrow> story_data \<Rightarrow> jsval \<Rightarrow> jsval" where
  "storyRecord m code relativePath storyId storyKey sd actions =
     VObj
      [(''id'', VStr storyId),
       (''title'', js_or (meta_title m) (VStr ''Unknown'')),
       (''name'', js_or (sd_storyName sd) (VStr storyKey)),
       (''kind'', js_or (meta_title m) (VStr ''Unknown'')),
       (''story'', js_or (sd_storyName sd) (VStr storyKey)),
       (''importPath'', VStr relativePath),
       (''type'', VStr ''story''),
       (''tags'', js_or (meta_tags m) (VArr [])),
       (''args'', sd_args sd),
       (''initialArgs'', sd_args sd),
       (''argTypes'', meta_argTypes m),
       (''parameters'', meta_parameters m),
       (''actions'', actions),
       (''docs'', VObj
          [(''description'',
              js_or (js_or
                (js_get (js_get (js_get (meta_parameters m) ''docs'') ''description'')
                   ''story'')
                (js_get (js_get (js_get (meta_parameters m) ''docs'') ''description'')
                   ''component''))
                (VStr [])),
           (''sourceCode'', VStr code),
           (''mdx'',
              js_or (js_get (js_get (meta_parameters m) ''docs'') ''page'') (VStr []))]),
       (''source'', VStr code),
       (''component'', meta_component m)]"

text \<open>
  The loop of lines 242-277 over \<^verbatim>\<open>Object.entries(stories)\<close>, executing
  \<^verbatim>\<open>metadata.stories[storyId] = {...}\<close>. The record literal is evaluated before the
  assignment, so an exception of \<^verbatim>\<open>extractActionsFromArgs\<close> leaves
  \<^verbatim>\<open>metadata.stories\<close> as the earlier iterations made it.
\<close>

fun buildStories ::
  "pollution \<Rightarrow> meta \<Rightarrow> string \<Rightarrow> string \<Rightarrow> story_table \<Rightarrow> jsval \<Rightarrow> jsval \<times> js_error option"
where
  "buildStories pol m code relativePath [] out = (out, None)"
| "buildStories pol m code relativePath ((storyKey, sd) # rest) out =
     (case extractActionsFromArgs pol (sd_args sd) (meta_argTypes m) of
        Inl e \<Rightarrow> (out, Some e)
      | Inr actions \<Rightarrow>
          buildStories pol m code relativePath rest
            (js_put out (generateStoryId (meta_title m) (VStr storyKey))
               (storyRecord m code relativePath
                  (generateStoryId (meta_title m) (VStr storyKey)) storyKey sd actions)))"

section \<open>Extraction from source files\<close>

text \<open>
  A story file found by \<^verbatim>\<open>glob\<close>: its path relative to the project root, its text, and
  what \<^verbatim>\<open>parser.parse\<close> makes of it, a syntax error or the nodes the visitors see.
\<close>

record source_file =
  relPath :: string
  code :: string
  parseResult :: "js_error + visit list"

text \<open>
  The initial \<^verbatim>\<open>metaExport\<close> of lines 175-180 has no \<^verbatim>\<open>tags\<close> field. \<open>processFile\<close>
  is the body of the \<^verbatim>\<open>try\<close> of one loop iteration (lines 165-278), applied to
  \<^verbatim>\<open>metadata.stories\<close> and the pollution the earlier files have left; its third result
  is the exception that the \<^verbatim>\<open>catch\<close> of line 279 turns into a warning.
\<close>

definition initialMeta :: meta where
  "initialMeta = \<lparr>meta_title = VStr [], meta_component = VNull, meta_argTypes = VObj [],
                   meta_parameters = VObj [], meta_tags = VUndefined\<rparr>"

definition initialTraversal :: traversal where
  "initialTraversal = \<lparr>t_meta = initialMeta, t_stories = [], t_protoIsStory = False\<rparr>"

definition processFile ::
  "pollution \<Rightarrow> source_file \<Rightarrow> jsval \<Rightarrow> jsval \<times> pollution \<times> js_error option" where
  "processFile pol f out =
     (case parseResult f of
        Inl e \<Rightarrow> (out, pol, Some e)
      | Inr visits \<Rightarrow>
          (case traverse visits (pol, initialTraversal) of
             (pol', Inl e) \<Rightarrow> (out, pol', Some e)
           | (pol', Inr t) \<Rightarrow>
               (case buildStories pol' (t_meta t) (code f) (''./'' @ relPath f)
                       (t_stories t) out of
                  (out', err) \<Rightarrow> (out', pol', err))))"

fun processFiles :: "source_file list \<Rightarrow> pollution \<Rightarrow> jsval \<Rightarrow> jsval \<times> pollution" where
  "processFiles [] pol out = (out, pol)"
| "processFiles (f # fs) pol out =
     (case processFile pol f out of (out', pol', err) \<Rightarrow> processFiles fs pol' out')"

section \<open>Catalogs and the environment of a run\<close>

text \<open>
  A catalog. \<open>stories\<close> are the own properties of \<^verbatim>\<open>metadata.stories\<close>, which
  \<^verbatim>\<open>Object.keys\<close> counts and \<^verbatim>\<open>JSON.stringify\<close> writes; \<open>storiesProto\<close> is the
  prototype of \<^verbatim>\<open>metadata.stories\<close> when an assignment
  \<^verbatim>\<open>metadata.stories['__proto__'] = ...\<close> has set one.
\<close>

record catalog =
  version :: string
  generatedAt :: string
  extractedFrom :: string
  totalStories :: nat
  stories :: js_object
  storiesProto :: "jsval option"

text \<open>
  \<^verbatim>\<open>createMetadataStructure\<close> (lines 751-759); the clock value that
  \<^verbatim>\<open>new Date().toISOString()\<close> reads is an argument.
\<close>

definition createMetadataStructure :: "string \<Rightarrow> string \<Rightarrow> catalog" where
  "createMetadataStructure now src =
     \<lparr>version = ''1.0.0'', generatedAt = now, extractedFrom = src,
      totalStories = 0, stories = [], storiesProto = None\<rparr>"

text \<open>The catalog whose \<^verbatim>\<open>stories\<close> object is \<open>obj\<close>.\<close>

fun protoOption :: "jsval \<Rightarrow> jsval option" where
  "protoOption (VObjP p kvs) = Some p"
| "protoOption v = None"

definition withStories :: "jsval \<Rightarrow> catalog \<Rightarrow> catalog" where
  "withStories obj metadata = metadata\<lparr>stories := ownProps obj, storiesProto := protoOption obj\<rparr>"

text \<open>
  Everything a run reads from outside: whether the optional parser packages were
  imported, whether the \<^verbatim>\<open>src\<close> directory exists, the files \<^verbatim>\<open>glob\<close> finds (\<open>None\<close>
  when it raises), the clock, the built \<^verbatim>\<open>index.json\<close> (\<open>None\<close> when the file does not
  exist, \<open>Inl\<close> when it cannot be read as JSON), the answer of the running server to
  \<^verbatim>\<open>/index.json\<close> (\<open>None\<close> when the request fails, the status is not ok or the body is
  not JSON), and the browser: whether puppeteer can be imported, whether the browser
  starts, whether the Storybook page loads, and for each story id what
  \<^verbatim>\<open>page.evaluate\<close> returns (\<open>Inl\<close> when the navigation or the evaluation raises).
\<close>

record world =
  parserInstalled :: bool
  srcDirExists :: bool
  globResult :: "source_file list option"
  clock :: string
  builtIndex :: "(js_error + jsval) option"
  liveIndex :: "jsval option"
  puppeteerInstalled :: bool
  browserStarts :: bool
  storybookLoads :: bool
  evaluateStory :: "string \<Rightarrow> js_error + jsval"

text \<open>
  \<^verbatim>\<open>extractFromSourceFiles\<close> (lines 131-294), called in a process whose
  \<^verbatim>\<open>Object.prototype\<close> is untouched; \<open>None\<close> is the result \<^verbatim>\<open>null\<close>.
  \<open>sourcePollution\<close> is what the call leaves on \<^verbatim>\<open>Object.prototype\<close>.
\<close>

definition extractFromSourceFiles :: "world \<Rightarrow> catalog option" where
  "extractFromSourceFiles w =
     (if \<not> parserInstalled w then None
      else if \<not> srcDirExists w then None
      else case globResult w of
        None \<Rightarrow> None
      | Some storyFiles \<Rightarrow>
          Some ((withStories (fst (processFiles storyFiles clean (VObj [])))
                   (createMetadataStructure (clock w) ''source-files''))
                  \<lparr>totalStories :=
                     length (js_entries (fst (processFiles storyFiles clean (VObj []))))\<rparr>))"

definition sourcePollution :: "world \<Rightarrow> pollution" where
  "sourcePollution w =
     (if \<not> parserInstalled w then clean
      else if \<not> srcDirExists w then clean
      else case globResult w of
        None \<Rightarrow> clean
      | Some storyFiles \<Rightarrow> snd (processFiles storyFiles clean (VObj [])))"

section \<open>Extraction from the built index\<close>

text \<open>
  \<^verbatim>\<open>extractBasicStoryData\<close> (lines 764-785). \<^verbatim>\<open>entry.id\<close> is a plain property read:
  it raises a TypeError on \<^verbatim>\<open>null\<close>.
\<close>

definition extractBasicStoryData :: "jsval \<Rightarrow> js_error + jsval" where
  "extractBasicStoryData entry =
     (if entry = VNull \<or> entry = VUndefined then Inl TypeError
      else Inr (VObj
        [(''id'', js_or (js_get entry ''id'') (VStr [])),
         (''title'', js_or (js_get entry ''title'') (VStr [])),
         (''name'', js_or (js_get entry ''name'') (VStr [])),
         (''kind'', js_or (js_get entry ''title'') (VStr [])),
         (''story'', js_or (js_get entry ''name'') (VStr [])),
         (''importPath'', js_or (js_get entry ''importPath'') (VStr [])),
         (''type'', js_or (js_get entry ''type'') (VStr ''story'')),
         (''tags'', js_or (js_get entry ''tags'') (VArr [])),
         (''args'', VObj []),
         (''initialArgs'', VObj []),
         (''argTypes'', VObj []),
         (''actions'', VObj []),
         (''docs'', VObj [(''description'', VStr [])]),
         (''source'', VStr []),
         (''parameters'', VObj []),
         (''component'', VNull)]))"

fun builtStories :: "js_object \<Rightarrow> jsval \<Rightarrow> js_error + jsval" where
  "builtStories [] out = Inr out"
| "builtStories ((storyId, entry) # es) out =
     (case extractBasicStoryData entry of
        Inl e \<Rightarrow> Inl e
      | Inr r \<Rightarrow> builtStories es (js_put out storyId r))"

text \<open>
  \<^verbatim>\<open>extractFromBuiltStorybook\<close> (lines 441-468). Every exception inside its \<^verbatim>\<open>try\<close>
  gives \<^verbatim>\<open>null\<close>. The function returns \<^verbatim>\<open>metadata\<close> without writing
  \<^verbatim>\<open>metadata.totalStories\<close>. (For an array, \<^verbatim>\<open>indexData.entries\<close> is a built-in
  function, which has no entries either.)
\<close>

definition extractFromBuiltStorybook :: "world \<Rightarrow> catalog option" where
  "extractFromBuiltStorybook w =
     (case builtIndex w of
        None \<Rightarrow> None
      | Some (Inl e) \<Rightarrow> None
      | Some (Inr indexData) \<Rightarrow>
          if indexData = VNull \<or> indexData = VUndefined then None
          else case builtStories
                      (js_entries (js_or (js_get indexData ''entries'') (VObj [])))
                      (VObj []) of
            Inl e \<Rightarrow> None
          | Inr sts \<Rightarrow>
              Some (withStories sts (createMetadataStructure (clock w) ''built-storybook'')))"

section \<open>Extraction from a running server\<close>

text \<open>\<^verbatim>\<open>extractBasicMetadataFromIndex\<close> (lines 476-495).\<close>

definition extractBasicMetadataFromIndex :: "world \<Rightarrow> jsval option" where
  "extractBasicMetadataFromIndex w =
     (case liveIndex w of
        None \<Rightarrow> None
      | Some indexData \<Rightarrow>
          if indexData = VNull \<or> indexData = VUndefined then None
          else Some (js_or (js_get indexData ''entries'') (VObj [])))"

text \<open>The record of basic data only (lines 624-641 and 722-739).\<close>

definition basicRecord :: "string \<Rightarrow> jsval \<Rightarrow> js_error + jsval" where
  "basicRecord storyId entry =
     (if entry = VNull \<or> entry = VUndefined then Inl TypeError
      else Inr (VObj
        [(''id'', js_or (js_get entry ''id'') (VStr storyId)),
         (''title'', js_or (js_get entry ''title'') (VStr [])),
         (''name'', js_or (js_get entry ''name'') (VStr [])),
         (''kind'', js_or (js_get entry ''title'') (VStr [])),
         (''story'', js_or (js_get entry ''name'') (VStr [])),
         (''importPath'', js_or (js_get entry ''importPath'') (VStr [])),
         (''type'', js_or (js_get entry ''type'') (VStr ''story'')),
         (''tags'', js_or (js_get entry ''tags'') (VArr [])),
         (''args'', VObj []),
         (''initialArgs'', VObj []),
         (''argTypes'', VObj []),
         (''actions'', VObj []),
         (''docs'', VObj [(''description'', VStr []), (''sourceCode'', VStr []),
                          (''mdx'', VStr [])]),
         (''source'', VStr []),
         (''parameters'',
            VObj [(''fileName'', js_or (js_get entry ''importPath'') (VStr []))]),
         (''component'', VNull)]))"

text \<open>\<^verbatim>\<open>extractActions\<close> (lines 667-679); every read is an optional one.\<close>

fun actionsOfArgTypes :: "js_object \<Rightarrow> jsval \<Rightarrow> jsval" where
  "actionsOfArgTypes [] actions = actions"
| "actionsOfArgTypes ((key, val) # es) actions =
     (if truthy (js_get val ''action'') \<or> startsWith key ''on''
         \<or> js_get (js_get val ''table'') ''category'' = VStr ''events''
      then actionsOfArgTypes es
             (js_put actions key (VObj
                [(''name'', VStr key),
                 (''description'', js_or (js_get val ''description'') (VStr [])),
                 (''action'',
                    (case js_get val ''action'' of VStr a \<Rightarrow> VStr a | _ \<Rightarrow> VStr key))]))
      else actionsOfArgTypes es actions)"

definition extractActions :: "jsval \<Rightarrow> jsval" where
  "extractActions argTypes =
     actionsOfArgTypes (js_entries (js_or argTypes (VObj []))) (VObj [])"

text \<open>
  The spread \<^verbatim>\<open>{ fileName: ..., ...storyData?.parameters }\<close> defines each copied
  property as an own data property, whatever its name; \<^verbatim>\<open>null\<close> and \<^verbatim>\<open>undefined\<close>
  spread to nothing.
\<close>

fun spreadInto :: "js_object \<Rightarrow> js_object \<Rightarrow> js_object" where
  "spreadInto [] out = out"
| "spreadInto ((k, v) # es) out = spreadInto es (defineOwn k v out)"

text \<open>
  The record with deep data (lines 587-620); \<open>storyData\<close> is what \<^verbatim>\<open>page.evaluate\<close>
  returned, \<^verbatim>\<open>null\<close> when the story store or the story was not found. Of the
  properties read here only \<^verbatim>\<open>args\<close> is one that \<^verbatim>\<open>Object.prototype\<close> can have been
  given.
\<close>

definition deepRecord :: "pollution \<Rightarrow> string \<Rightarrow> jsval \<Rightarrow> jsval \<Rightarrow> js_error + jsval" where
  "deepRecord pol storyId entry storyData =
     (if entry = VNull \<or> entry = VUndefined then Inl TypeError
      else let params = js_get storyData ''parameters'' in Inr (VObj
        [(''id'', js_or (js_get entry ''id'') (VStr storyId)),
         (''title'', js_or (js_get entry ''title'') (VStr [])),
         (''name'', js_or (js_get entry ''name'') (VStr [])),
         (''kind'', js_or (js_get entry ''title'') (VStr [])),
         (''story'', js_or (js_get entry ''name'') (VStr [])),
         (''importPath'', js_or (js_get entry ''importPath'') (VStr [])),
         (''type'', js_or (js_get entry ''type'') (VStr ''story'')),
         (''tags'',
            js_or (js_or (js_get storyData ''tags'') (js_get entry ''tags'')) (VArr [])),
         (''args'', js_or (js_get_in pol storyData ''args'') (VObj [])),
         (''initialArgs'', js_or (js_get storyData ''initialArgs'') (VObj [])),
         (''argTypes'', js_or (js_get storyData ''argTypes'') (VObj [])),
         (''actions'', extractActions (js_or (js_get storyData ''argTypes'') (VObj []))),
         (''docs'', VObj
            [(''description'',
                js_or (js_or
                  (js_get (js_get (js_get params ''docs'') ''description'') ''story'')
                  (js_get (js_get (js_get params ''docs'') ''description'') ''component''))
                  (VStr [])),
             (''sourceCode'',
                js_or (js_or
                  (js_get (js_get (js_get params ''docs'') ''source'') ''code'')
                  (js_get (js_get params ''storySource'') ''source''))
                  (VStr [])),
             (''mdx'', js_or (js_get (js_get params ''docs'') ''page'') (VStr []))]),
         (''source'',
            js_or (js_get (js_get (js_get params ''docs'') ''source'') ''code'') (VStr [])),
         (''parameters'',
            VObj (spreadInto (js_entries params)
              [(''fileName'', js_or (js_get entry ''importPath'') (VStr []))])),
         (''component'',
            js_or (js_get (js_get params ''component'') ''__docgenInfo'') VNull)]))"

text \<open>
  The loop of lines 537-648 over the story ids. The inner \<^verbatim>\<open>try\<close> covers the
  navigation, the evaluation and the deep record; its \<^verbatim>\<open>catch\<close> stores the basic
  record, and an exception raised there leaves the loop.
\<close>

fun deepStories ::
  "pollution \<Rightarrow> (string \<Rightarrow> js_error + jsval) \<Rightarrow> js_object \<Rightarrow> jsval \<Rightarrow> js_error + jsval"
where
  "deepStories pol ev [] out = Inr out"
| "deepStories pol ev ((storyId, entry) # es) out =
     (case (case ev storyId of
              Inl e \<Rightarrow> Inl e
            | Inr storyData \<Rightarrow> deepRecord pol storyId entry storyData) of
        Inr r \<Rightarrow> deepStories pol ev es (js_put out storyId r)
      | Inl e \<Rightarrow>
          (case basicRecord storyId entry of
             Inl e' \<Rightarrow> Inl e'
           | Inr r \<Rightarrow> deepStories pol ev es (js_put out storyId r)))"

text \<open>
  \<^verbatim>\<open>extractDeepMetadataWithBrowser\<close> (lines 501-662), called when \<^verbatim>\<open>Object.prototype\<close>
  has the pollution \<open>pol\<close>. The browser is launched before the \<^verbatim>\<open>try\<close>, so a failing
  launch is an exception of the function itself; every later exception gives \<^verbatim>\<open>null\<close>.
\<close>

definition extractDeepMetadataWithBrowser ::
  "world \<Rightarrow> pollution \<Rightarrow> jsval \<Rightarrow> js_error + catalog option" where
  "extractDeepMetadataWithBrowser w pol storyEntries =
     (if \<not> puppeteerInstalled w then Inr None
      else if \<not> browserStarts w then Inl OtherError
      else if \<not> storybookLoads w then Inr None
      else case deepStories pol (evaluateStory w) (js_entries storyEntries) (VObj []) of
        Inl e \<Rightarrow> Inr None
      | Inr sts \<Rightarrow>
          Inr (Some ((withStories sts
                        (createMetadataStructure (clock w) ''running-storybook-deep''))
                       \<lparr>totalStories := length (js_entries sts)\<rparr>)))"

fun basicStories :: "js_object \<Rightarrow> jsval \<Rightarrow> js_error + jsval" where
  "basicStories [] out = Inr out"
| "basicStories ((storyId, entry) # es) out =
     (case basicRecord storyId entry of
        Inl e \<Rightarrow> Inl e
      | Inr r \<Rightarrow> basicStories es (js_put out storyId r))"

text \<open>
  \<^verbatim>\<open>extractFromRunningStorybook\<close> (lines 685-744), the strategy selector. \<open>Inl\<close> is
  an exception that leaves the function.
\<close>

definition hasStories :: "catalog option \<Rightarrow> bool" where
  "hasStories r = (case r of None \<Rightarrow> False | Some m \<Rightarrow> 0 < totalStories m)"

definition extractFromRunningStorybook :: "world \<Rightarrow> js_error + catalog option" where
  "extractFromRunningStorybook w =
     (if hasStories (extractFromSourceFiles w) then Inr (extractFromSourceFiles w)
      else case extractBasicMetadataFromIndex w of
        None \<Rightarrow> Inr (extractFromBuiltStorybook w)
      | Some storyEntries \<Rightarrow>
          if length (js_entries storyEntries) = 0 then Inr (extractFromBuiltStorybook w)
          else case extractDeepMetadataWithBrowser w (sourcePollution w) storyEntries of
            Inl e \<Rightarrow> Inl e
          | Inr deepMetadata \<Rightarrow>
              if hasStories deepMetadata then Inr deepMetadata
              else case basicStories (js_entries storyEntries) (VObj []) of
                Inl e \<Rightarrow> Inl e
              | Inr sts \<Rightarrow>
                  Inr (Some ((withStories sts
                                (createMetadataStructure (clock w) ''storybook-index-basic''))
                               \<lparr>totalStories := length (js_entries sts)\<rparr>)))"

section \<open>The command line\<close>

text \<open>
  \<^verbatim>\<open>saveMetadata\<close> (lines 790-806) recomputes the count and writes the catalog; the
  result is the catalog written. \<^verbatim>\<open>main\<close> (lines 810-899) either writes a catalog or
  ends the process with exit code 1, also when an exception reaches its caller. The port
  options only choose the server that \<open>liveIndex\<close> and the browser talk to.
\<close>

definition saveMetadata :: "catalog \<Rightarrow> catalog" where
  "saveMetadata metadata = metadata\<lparr>totalStories := length (stories metadata)\<rparr>"

datatype main_result = Exit1 | Saved catalog

definition modeOf :: "string list \<Rightarrow> string" where
  "modeOf args =
     (case find (\<lambda>arg. startsWith arg ''--'' \<and> \<not> startsWith arg ''--port''
                         \<and> \<not> startsWith arg ''--deep'') args of
        Some arg \<Rightarrow> arg
      | None \<Rightarrow> ''--build'')"

definition finish :: "catalog option \<Rightarrow> main_result" where
  "finish metadata = (case metadata of None \<Rightarrow> Exit1 | Some m \<Rightarrow> Saved (saveMetadata m))"

definition enhance :: "world \<Rightarrow> catalog \<Rightarrow> main_result" where
  "enhance w metadata =
     (case extractFromRunningStorybook w of
        Inl e \<Rightarrow> Exit1
      | Inr None \<Rightarrow> finish (Some metadata)
      | Inr (Some enhanced) \<Rightarrow>
          if extractedFrom enhanced = ''running-storybook'' then finish (Some enhanced)
          else finish (Some metadata))"

definition main :: "string list \<Rightarrow> world \<Rightarrow> main_result" where
  "main args w =
     (if modeOf args = ''--dev'' then
        (case extractFromRunningStorybook w of
           Inl e \<Rightarrow> Exit1
         | Inr metadata \<Rightarrow> finish metadata)
      else if modeOf args = ''--build'' then
        (case extractFromBuiltStorybook w of
           None \<Rightarrow> finish None
         | Some metadata \<Rightarrow>
             if List.member args ''--enhance'' then enhance w metadata
             else finish (Some metadata))
      else Exit1)"

section \<open>Notions used in the statements\<close>

text \<open>The normalized value of one array element; a hole reads as \<^verbatim>\<open>null\<close>.\<close>

definition normalizeElement :: "node option \<Rightarrow> jsval" where
  "normalizeElement el = (case el of None \<Rightarrow> VNull | Some n \<Rightarrow> extractValue n)"



text \<open>
  A default export sets the title when, under its type assertions, it is an object
  literal with a property whose key is the identifier \<^verbatim>\<open>title\<close> and whose value node
  has a truthy \<^verbatim>\<open>value\<close> field (the test of line 310).
\<close>

fun hasTruthyTitle :: "node \<Rightarrow> bool" where
  "hasTruthyTitle (ObjectExpression ps) =
     list_ex (\<lambda>p. key_name p = VStr ''title'' \<and> truthy (value_value p)) ps"
| "hasTruthyTitle (TSAsExpression e) = hasTruthyTitle e"
| "hasTruthyTitle _ = False"

section \<open>Example inputs\<close>

text \<open>
  The story file of the example scenario:
  \<^verbatim>\<open>export default { title: "Components/Button", argTypes: { variant: { control: { type: "select" } } } }\<close>,
  \<^verbatim>\<open>export const Primary = {}\<close> and
  \<^verbatim>\<open>Primary.args = { variant: "primary", disabled: false }\<close>.
\<close>

definition buttonStories :: "visit list" where
  "buttonStories =
     [ExportDefaultDeclaration (ObjectExpression
        [ObjectProperty (Identifier ''title'') (StringLiteral ''Components/Button''),
         ObjectProperty (Identifier ''argTypes'') (ObjectExpression
           [ObjectProperty (Identifier ''variant'') (ObjectExpression
              [ObjectProperty (Identifier ''control'') (ObjectExpression
                 [ObjectProperty (Identifier ''type'') (StringLiteral ''select'')])])])]),
      ExportNamedDeclaration (Some (VariableDeclaration [Identifier ''Primary''])),
      AssignmentExpression (MemberExpression (Identifier ''Primary'') (Identifier ''args''))
        (ObjectExpression
           [ObjectProperty (Identifier ''variant'') (StringLiteral ''primary''),
            ObjectProperty (Identifier ''disabled'') (BooleanLiteral False)])]"

definition buttonFile :: source_file where
  "buttonFile = \<lparr>relPath = ''src/Button.stories.js'', code = ''export default {};'',
     parseResult = Inr buttonStories\<rparr>"

text \<open>A file that the parser rejects.\<close>

definition brokenFile :: source_file where
  "brokenFile = \<lparr>relPath = ''src/Broken.stories.js'', code = ''export default {'',
     parseResult = Inl SyntaxError\<rparr>"

text \<open>
  A file that the parser accepts:
  \<^verbatim>\<open>export default { title: "Components/Card", argTypes: { size: common.size } }\<close> and
  \<^verbatim>\<open>export const Default = {}\<close>. The \<^verbatim>\<open>argTypes\<close> entry is a member expression.
\<close>

definition sharedArgTypes :: node where
  "sharedArgTypes = ObjectExpression
     [ObjectProperty (Identifier ''size'')
        (MemberExpression (Identifier ''common'') (Identifier ''size''))]"

definition sharedArgTypesFile :: source_file where
  "sharedArgTypesFile = \<lparr>relPath = ''src/Card.stories.js'', code = ''export default {};'',
     parseResult = Inr
       [ExportDefaultDeclaration (ObjectExpression
          [ObjectProperty (Identifier ''title'') (StringLiteral ''Components/Card''),
           ObjectProperty (Identifier ''argTypes'') sharedArgTypes]),
        ExportNamedDeclaration (Some (VariableDeclaration [Identifier ''Default'']))]\<rparr>"

text \<open>\<^verbatim>\<open>export default meta; export const Primary = {}\<close>: the default export is an identifier.\<close>

definition untitledFile :: source_file where
  "untitledFile = \<lparr>relPath = ''src/Card.stories.js'', code = ''export default meta;'',
     parseResult = Inr
       [ExportDefaultDeclaration (Identifier ''meta''),
        ExportNamedDeclaration (Some (VariableDeclaration [Identifier ''Primary'']))]\<rparr>"

text \<open>
  \<^verbatim>\<open>export default { title: T }; export const Primary = {}\<close> for a title node \<open>T\<close>,
  such as the literals \<^verbatim>\<open>42\<close>, \<^verbatim>\<open>true\<close>, \<^verbatim>\<open>1e21\<close> and \<^verbatim>\<open>1.5\<close>.
\<close>

definition literalTitledFile :: "node \<Rightarrow> source_file" where
  "literalTitledFile titleNode = \<lparr>relPath = ''src/Card.stories.js'',
     code = ''export default {};'',
     parseResult = Inr
       [ExportDefaultDeclaration (ObjectExpression
          [ObjectProperty (Identifier ''title'') titleNode]),
        ExportNamedDeclaration (Some (VariableDeclaration [Identifier ''Primary'']))]\<rparr>"







text \<open>A built \<^verbatim>\<open>index.json\<close> with one entry.\<close>

definition buttonIndex :: jsval where
  "buttonIndex = VObj [(''v'', VNum ''5''), (''entries'', VObj
     [(''components-button--primary'', VObj
        [(''id'', VStr ''components-button--primary''),
         (''title'', VStr ''Components/Button''),
         (''name'', VStr ''Primary''),
         (''importPath'', VStr ''./src/Button.stories.js''),
         (''type'', VStr ''story''),
         (''tags'', VArr [VStr ''story''])])])]"

text \<open>
  What \<^verbatim>\<open>page.evaluate\<close> returns for the story of \<open>buttonIndex\<close> in a browser that
  shows it.
\<close>

definition buttonStoryData :: jsval where
  "buttonStoryData = VObj
     [(''args'', VObj [(''variant'', VStr ''primary'')]),
      (''initialArgs'', VObj [(''variant'', VStr ''primary'')]),
      (''argTypes'', VObj [(''onClick'', VObj [(''description'', VStr ''Click handler'')])]),
      (''parameters'', VObj []),
      (''tags'', VArr [VStr ''story''])]"

text \<open>
  The environments of the examples. In \<open>builtOnlyWorld\<close> the parser packages are missing
  and no server answers; only the built index exists. In \<open>liveWorld\<close> the parser packages
  and puppeteer are missing, and both the built index and a running server exist.
  \<open>deepWorld\<close> is \<open>liveWorld\<close> with puppeteer installed and a browser that starts, loads
  the page and returns \<open>buttonStoryData\<close> for every story; in \<open>launchFailsWorld\<close>
  puppeteer is installed and the browser does not start. In \<open>sourceWorld\<close> the parser
  packages are installed and the source tree holds \<open>brokenFile\<close> and \<open>buttonFile\<close>; the
  built index exists and no server answers. \<open>mixedWorld\<close> is \<open>sourceWorld\<close> with
  \<open>sharedArgTypesFile\<close> between the two files.
\<close>

definition builtOnlyWorld :: world where
  "builtOnlyWorld = \<lparr>parserInstalled = False, srcDirExists = True, globResult = Some [],
     clock = ''2024-01-01T00:00:00.000Z'', builtIndex = Some (Inr buttonIndex),
     liveIndex = None, puppeteerInstalled = False, browserStarts = False,
     storybookLoads = False, evaluateStory = (\<lambda>storyId. Inl OtherError)\<rparr>"

definition liveWorld :: world where
  "liveWorld = \<lparr>parserInstalled = False, srcDirExists = True, globResult = Some [],
     clock = ''2024-01-01T00:00:00.000Z'', builtIndex = Some (Inr buttonIndex),
     liveIndex = Some buttonIndex, puppeteerInstalled = False, browserStarts = False,
     storybookLoads = False, evaluateStory = (\<lambda>storyId. Inl OtherError)\<rparr>"

definition deepWorld :: world where
  "deepWorld = \<lparr>parserInstalled = False, srcDirExists = True, globResult = Some [],
     clock = ''2024-01-01T00:00:00.000Z'', builtIndex = Some (Inr buttonIndex),
     liveIndex = Some buttonIndex, puppeteerInstalled = True, browserStarts = True,
     storybookLoads = True, evaluateStory = (\<lambda>storyId. Inr buttonStoryData)\<rparr>"

definition launchFailsWorld :: world where
  "launchFailsWorld = \<lparr>parserInstalled = False, srcDirExists = True, globResult = Some [],
     clock = ''2024-01-01T00:00:00.000Z'', builtIndex = Some (Inr buttonIndex),
     liveIndex = Some buttonIndex, puppeteerInstalled = True, browserStarts = False,
     storybookLoads = False, evaluateStory = (\<lambda>storyId. Inl OtherError)\<rparr>"

definition sourceWorld :: world where
  "sourceWorld = \<lparr>parserInstalled = True, srcDirExists = True,
     globResult = Some [brokenFile, buttonFile],
     clock = ''2024-01-01T00:00:00.000Z'', builtIndex = Some (Inr buttonIndex),
     liveIndex = None, puppeteerInstalled = False, browserStarts = False,
     storybookLoads = False, evaluateStory = (\<lambda>storyId. Inl OtherError)\<rparr>"

definition mixedWorld :: world where
  "mixedWorld = \<lparr>parserInstalled = True, srcDirExists = True,
     globResult = Some [brokenFile, sharedArgTypesFile, buttonFile],
     clock = ''2024-01-01T00:00:00.000Z'', builtIndex = Some (Inr buttonIndex),
     liveIndex = None, puppeteerInstalled = False, browserStarts = False,
     storybookLoads = False, evaluateStory = (\<lambda>storyId. Inl OtherError)\<rparr>"

section \<open>Shapes of objects\<close>

text \<open>A value that is an object and not an array.\<close>

fun isRecord :: "jsval \<Rightarrow> bool" where
  "isRecord (VObj kvs) = True"
| "isRecord (VObjP p kvs) = True"
| "isRecord v = False"



section \<open>Own properties\<close>

lemma entries_record: "isRecord v \<Longrightarrow> js_entries v = ownProps v"
  by (cases v) simp_all

lemma ownProps_withProps: "isRecord v \<Longrightarrow> ownProps (withProps v kvs) = kvs"
  by (cases v) simp_all

lemma isRecord_withProps: "isRecord v \<Longrightarrow> isRecord (withProps v kvs)"
  by (cases v) simp_all

lemma set_insertOwn: "set (insertOwn k v ps) = insert (k, v) (set ps)"
  by (induction ps) (auto split: option.splits)



lemma set_update:
  "(a, b) \<in> set (AList.update k v ps) \<Longrightarrow> (a, b) \<in> set ps \<or> (a = k \<and> b = v)"
  by (induction ps) (auto split: if_splits)

lemma isRecord_js_put: "isRecord obj \<Longrightarrow> isRecord (js_put obj k x)"
  by (cases obj)
     (simp_all add: js_put_def isRecord_withProps split: option.splits found.splits)

lemma set_js_put:
  assumes "(a, b) \<in> set (ownProps (js_put obj k x))"
  shows "(a, b) \<in> set (ownProps obj) \<or> (a = k \<and> b = x)"
proof (cases "isRecord obj")
  case False
  then have "js_put obj k x = obj \<or> js_put obj k x = VObjP x []"
    by (cases obj) (simp_all add: js_put_def split: option.splits found.splits)
  with assms False show ?thesis by (cases obj) auto
next
  case True
  show ?thesis
  proof (cases "map_of (ownProps obj) k")
    case (Some old)
    with assms True have "(a, b) \<in> set (AList.update k x (ownProps obj))"
      by (simp add: js_put_def ownProps_withProps)
    then show ?thesis by (rule set_update)
  next
    case None
    with assms True
    have "(a, b) \<in> set (insertOwn k x (ownProps obj)) \<or> (a, b) \<in> set (ownProps obj)"
      by (auto simp: js_put_def ownProps_withProps split: found.splits if_splits)
    then show ?thesis by (auto simp: set_insertOwn)
  qed
qed






section \<open>The value normalizer: sentinels and arrays\<close>

text \<open>
  Claim C6. \<^verbatim>\<open>extractValue\<close> maps a function expression and an arrow function to the
  string \<^verbatim>\<open>"[Function]"\<close>, a JSX element and a JSX fragment to the string
  \<^verbatim>\<open>"[JSX Element]"\<close>, an identifier to its name, a type assertion to the value of the
  expression inside, and every node kind outside its \<^verbatim>\<open>switch\<close> to \<^verbatim>\<open>null\<close>.
\<close>

theorem extractValue_sentinels:
  "extractValue FunctionExpression = VStr ''[Function]''
   \<and> extractValue ArrowFunctionExpression = VStr ''[Function]''
   \<and> extractValue JSXElement = VStr ''[JSX Element]''
   \<and> extractValue JSXFragment = VStr ''[JSX Element]''
   \<and> extractValue (Identifier n) = VStr n
   \<and> extractValue (TSAsExpression e) = extractValue e
   \<and> extractValue (MemberExpression a b) = VNull
   \<and> extractValue (BigIntLiteral s) = VNull
   \<and> extractValue OtherNode = VNull"
  by simp

lemma extractElements_map: "extractElements els = map normalizeElement els"
  by (induction els) (auto simp: normalizeElement_def split: option.splits)

text \<open>
  Claim C7. For an array literal, \<^verbatim>\<open>extractValue\<close> gives the normalized elements in
  order, without those that normalize to \<^verbatim>\<open>null\<close>; so the result never contains
  \<^verbatim>\<open>null\<close>, and a literal \<^verbatim>\<open>null\<close> element and an element of an unsupported kind
  both leave the result as if they were not there.
\<close>

theorem extractValue_array_drops_null:
  "extractValue (ArrayExpression els)
     = VArr (filter (\<lambda>v. v \<noteq> VNull) (map normalizeElement els))
   \<and> VNull \<notin> set (filter (\<lambda>v. v \<noteq> VNull) (map normalizeElement els))
   \<and> extractValue (ArrayExpression (xs @ Some NullLiteral # ys @ Some OtherNode # zs))
       = extractValue (ArrayExpression (xs @ ys @ zs))"
  by (simp add: extractElements_map normalizeElement_def)

section \<open>The normalized object literal\<close>









section \<open>Story ids\<close>

lemma slug_lower: "isSlugChar c \<Longrightarrow> toLowerChar c = c"
  by (auto simp: isSlugChar_def toLowerChar_def Let_def)

lemma slug_space: "isSlugChar c \<Longrightarrow> \<not> isSpace c"
  by (auto simp: isSlugChar_def isSpace_def Let_def)


lemma hyphen_slug: "isSlugChar CHR ''-''"
  by (simp add: isSlugChar_def)





lemma slug_chars: "set (generateStoryId t n) \<subseteq> {c. isSlugChar c}"
  by (auto simp: generateStoryId_def stripUnsafe_def)

lemma generateStoryId_not_proto: "generateStoryId t n \<noteq> ''__proto__''"
proof
  assume "generateStoryId t n = ''__proto__''"
  then have "CHR ''_'' \<in> set (generateStoryId t n)" by simp
  with slug_chars have "isSlugChar CHR ''_''" by blast
  then show False by (simp add: isSlugChar_def)
qed

lemma id_prefix: "\<exists>rest. generateStoryId (VStr []) (VStr key) = ''--'' @ rest"
proof -
  have l: "toLowerChar CHR ''-'' = CHR ''-''" by (rule slug_lower[OF hyphen_slug])
  have s: "\<not> isSpace CHR ''-''" by (rule slug_space[OF hyphen_slug])
  show ?thesis
    by (simp add: generateStoryId_def toLowerCase_def l s replaceSlashes_def
        stripUnsafe_def hyphen_slug)
qed




section \<open>Actions of a story record\<close>








lemma storyRecord_title:
  "js_get (storyRecord m c p i k sd acts) ''title'' = js_or (meta_title m) (VStr ''Unknown'')"
  by (simp add: storyRecord_def js_get_def)

lemma storyRecord_kind:
  "js_get (storyRecord m c p i k sd acts) ''kind'' = js_or (meta_title m) (VStr ''Unknown'')"
  by (simp add: storyRecord_def js_get_def)

lemma storyRecord_id: "js_get (storyRecord m c p i k sd acts) ''id'' = VStr i"
  by (simp add: storyRecord_def js_get_def)






section \<open>Records built from one file\<close>

lemma metaProps_title:
  "metaProps ps m = Inr m' \<Longrightarrow>
   \<not> list_ex (\<lambda>p. key_name p = VStr ''title'' \<and> truthy (value_value p)) ps \<Longrightarrow>
   meta_title m' = meta_title m"
proof (induction ps arbitrary: m)
  case Nil
  then show ?case by simp
next
  case (Cons p ps)
  from Cons.prems(2) have np: "\<not> (key_name p = VStr ''title'' \<and> truthy (value_value p))"
    and rest: "\<not> list_ex (\<lambda>p. key_name p = VStr ''title'' \<and> truthy (value_value p)) ps"
    by auto
  from Cons.prems(1) np obtain m1 where "metaProps ps m1 = Inr m'"
    and "meta_title m1 = meta_title m"
    by (auto split: if_splits option.splits sum.splits)
  with Cons.IH[OF _ rest] show ?case by simp
qed

lemma extractMetaObject_title:
  "extractMetaObject d = Inr m \<Longrightarrow> \<not> hasTruthyTitle d \<Longrightarrow> meta_title m = VStr []"
  by (induction d rule: extractMetaObject.induct)
     (auto simp: emptyMeta_def dest: metaProps_title)

lemma declareStory_meta: "t_meta (declareStory n t) = t_meta t"
  by (simp add: declareStory_def split: jsval.splits)

lemma declareStories_meta: "t_meta (declareStories ds t) = t_meta t"
  by (induction ds arbitrary: t) (simp_all add: declareStory_meta)

lemma assignArgs_meta:
  "assignArgs obj prop right (pol, t) = (pol', Inr t') \<Longrightarrow> t_meta t' = t_meta t"
  by (auto simp: assignArgs_def Let_def split: if_splits target.splits)

lemma assignStoryName_meta:
  "assignStoryName obj prop right (pol, t) = (pol', Inr t') \<Longrightarrow> t_meta t' = t_meta t"
  by (auto simp: assignStoryName_def Let_def split: if_splits target.splits)

lemma visitNode_title:
  assumes "visitNode v (pol, t) = (pol', Inr t')"
    and "\<forall>d. v = ExportDefaultDeclaration d \<longrightarrow> \<not> hasTruthyTitle d"
    and "meta_title (t_meta t) = VStr []"
  shows "meta_title (t_meta t') = VStr []"
proof (cases v)
  case (ExportDefaultDeclaration d)
  with assms(1) obtain m where m: "extractMetaObject d = Inr m" and t': "t' = t\<lparr>t_meta := m\<rparr>"
    by (auto split: sum.splits)
  from assms(2) ExportDefaultDeclaration have "\<not> hasTruthyTitle d" by simp
  with m have "meta_title m = VStr []" by (rule extractMetaObject_title)
  with t' show ?thesis by simp
next
  case (ExportNamedDeclaration x)
  have "t_meta t' = t_meta t"
  proof (cases x)
    case None
    with assms(1) ExportNamedDeclaration show ?thesis by simp
  next
    case (Some e)
    show ?thesis
    proof (cases e)
      case (VariableDeclaration ds)
      with assms(1) ExportNamedDeclaration Some show ?thesis
        by (auto simp: declareStories_meta)
    next
      case (FunctionDeclaration i)
      with assms(1) ExportNamedDeclaration Some show ?thesis
        by (cases i) (auto simp: declareStory_meta)
    next
      case OtherDeclaration
      with assms(1) ExportNamedDeclaration Some show ?thesis by simp
    qed
  qed
  with assms(3) show ?thesis by simp
next
  case (AssignmentExpression l right)
  have "t_meta t' = t_meta t"
  proof (cases "\<exists>a b. l = MemberExpression a b")
    case False
    with assms(1) AssignmentExpression show ?thesis by (cases l) auto
  next
    case True
    then obtain a b where l: "l = MemberExpression a b" by blast
    from assms(1) AssignmentExpression l obtain pol1 t1 where
      1: "assignArgs a b right (pol, t) = (pol1, Inr t1)"
      and 2: "assignStoryName a b right (pol1, t1) = (pol', Inr t')"
      by (auto split: prod.splits sum.splits)
    from assignArgs_meta[OF 1] assignStoryName_meta[OF 2] show ?thesis by simp
  qed
  with assms(3) show ?thesis by simp
qed

lemma traverse_title:
  "traverse vs (pol, t) = (pol', Inr t') \<Longrightarrow>
   (\<forall>d. ExportDefaultDeclaration d \<in> set vs \<longrightarrow> \<not> hasTruthyTitle d) \<Longrightarrow>
   meta_title (t_meta t) = VStr [] \<Longrightarrow> meta_title (t_meta t') = VStr []"
proof (induction vs arbitrary: pol t)
  case Nil
  then show ?case by simp
next
  case (Cons v vs)
  from Cons.prems(1) obtain pol1 t1 where v: "visitNode v (pol, t) = (pol1, Inr t1)"
    and t: "traverse vs (pol1, t1) = (pol', Inr t')"
    by (auto split: prod.splits sum.splits)
  have "meta_title (t_meta t1) = VStr []"
    using visitNode_title[OF v _ Cons.prems(3)] Cons.prems(2) by simp
  with Cons.IH[OF t] Cons.prems(2) show ?case by simp
qed

lemma buildStories_record:
  "isRecord out \<Longrightarrow> isRecord (fst (buildStories pol m c p sts out))"
proof (induction sts arbitrary: out)
  case Nil
  then show ?case by simp
next
  case (Cons s sts)
  obtain key sd where s: "s = (key, sd)" by (cases s)
  show ?case
  proof (cases "extractActionsFromArgs pol (sd_args sd) (meta_argTypes m)")
    case (Inl err)
    with Cons.prems show ?thesis by (simp add: s)
  next
    case (Inr acts)
    with Cons show ?thesis by (simp add: s isRecord_js_put)
  qed
qed

lemma buildStories_records:
  "buildStories pol m c p sts out = (out', e) \<Longrightarrow> (k, r) \<in> set (ownProps out') \<Longrightarrow>
   (k, r) \<in> set (ownProps out) \<or>
   (\<exists>key sd acts. k = generateStoryId (meta_title m) (VStr key)
       \<and> r = storyRecord m c p k key sd acts)"
proof (induction sts arbitrary: out)
  case Nil
  then show ?case by simp
next
  case (Cons s sts)
  obtain key sd where s: "s = (key, sd)" by (cases s)
  show ?case
  proof (cases "extractActionsFromArgs pol (sd_args sd) (meta_argTypes m)")
    case (Inl err)
    from Cons.prems(1) have "out' = out" by (simp add: s Inl)
    with Cons.prems(2) show ?thesis by simp
  next
    case (Inr acts)
    define i where "i = generateStoryId (meta_title m) (VStr key)"
    define rec where "rec = storyRecord m c p i key sd acts"
    from Cons.prems(1)
    have "buildStories pol m c p sts (js_put out i rec) = (out', e)"
      by (simp add: s Inr i_def rec_def)
    from Cons.IH[OF this Cons.prems(2)]
    show ?thesis
    proof
      assume "(k, r) \<in> set (ownProps (js_put out i rec))"
      then have "(k, r) \<in> set (ownProps out) \<or> (k = i \<and> r = rec)" by (rule set_js_put)
      then show ?thesis
      proof
        assume "(k, r) \<in> set (ownProps out)"
        then show ?thesis ..
      next
        assume "k = i \<and> r = rec"
        then have "k = generateStoryId (meta_title m) (VStr key)
                   \<and> r = storyRecord m c p k key sd acts"
          by (simp add: i_def rec_def)
        then show ?thesis by blast
      qed
    next
      assume "\<exists>key sd acts. k = generateStoryId (meta_title m) (VStr key)
                \<and> r = storyRecord m c p k key sd acts"
      then show ?thesis ..
    qed
  qed
qed

lemma processFile_record: "isRecord out \<Longrightarrow> isRecord (fst (processFile pol f out))"
proof (cases "parseResult f")
  case (Inl e)
  assume "isRecord out"
  with Inl show ?thesis by (simp add: processFile_def)
next
  case (Inr visits)
  assume r: "isRecord out"
  obtain pol' x where t: "traverse visits (pol, initialTraversal) = (pol', x)"
    by (cases "traverse visits (pol, initialTraversal)")
  show ?thesis
  proof (cases x)
    case (Inl e)
    with r Inr t show ?thesis by (simp add: processFile_def)
  next
    case tr: (Inr t')
    have "fst (processFile pol f out)
            = fst (buildStories pol' (t_meta t') (code f) (''./'' @ relPath f)
                     (t_stories t') out)"
      by (simp add: processFile_def Inr t tr split: prod.splits)
    with buildStories_record[OF r] show ?thesis by simp
  qed
qed

lemma processFiles_record: "isRecord out \<Longrightarrow> isRecord (fst (processFiles fs pol out))"
proof (induction fs arbitrary: pol out)
  case Nil
  then show ?case by simp
next
  case (Cons f fs)
  obtain out' pol' err where p: "processFile pol f out = (out', pol', err)"
    by (cases "processFile pol f out")
  from processFile_record[OF Cons.prems, of pol f] p have "isRecord out'" by simp
  from Cons.IH[OF this] show ?case by (simp add: p)
qed

text \<open>
  Claim C10, as amended. When no default export of a file has a \<^verbatim>\<open>title\<close> property
  whose value node carries a truthy \<^verbatim>\<open>value\<close> (there is no default export, it is not an
  object literal, or its title is an identifier, a template literal, an empty string,
  \<^verbatim>\<open>0\<close> or \<^verbatim>\<open>false\<close>), every record built from the file has the title and the kind
  \<^verbatim>\<open>"Unknown"\<close>, and its id is generated from the empty title, so it begins with two
  hyphens.
\<close>

theorem untitled_meta_is_Unknown:
  assumes "parseResult f = Inr visits"
    and "\<forall>d. ExportDefaultDeclaration d \<in> set visits \<longrightarrow> \<not> hasTruthyTitle d"
    and "(storyId, r) \<in> set (js_entries (fst (processFile pol f (VObj []))))"
  shows "js_get r ''title'' = VStr ''Unknown'' \<and> js_get r ''kind'' = VStr ''Unknown''
    \<and> js_get r ''id'' = VStr storyId
    \<and> (\<exists>key. storyId = generateStoryId (VStr []) (VStr key))
    \<and> take 2 storyId = ''--''"
proof -
  obtain pol' x where tr: "traverse visits (pol, initialTraversal) = (pol', x)"
    by (cases "traverse visits (pol, initialTraversal)")
  have rec: "isRecord (fst (processFile pol f (VObj [])))"
    by (rule processFile_record) simp
  from assms(3) have mem: "(storyId, r) \<in> set (ownProps (fst (processFile pol f (VObj []))))"
    using rec by (simp add: entries_record)
  show ?thesis
  proof (cases x)
    case (Inl e)
    with assms(1) tr mem show ?thesis by (simp add: processFile_def)
  next
    case (Inr t)
    have t: "meta_title (t_meta t) = VStr []"
      using traverse_title[of visits pol initialTraversal pol' t] Inr tr assms(2)
      by (simp add: initialTraversal_def initialMeta_def)
    obtain out' e where b: "buildStories pol' (t_meta t) (code f) (''./'' @ relPath f)
                              (t_stories t) (VObj []) = (out', e)"
      by (cases "buildStories pol' (t_meta t) (code f) (''./'' @ relPath f)
                   (t_stories t) (VObj [])")
    with assms(1) Inr tr mem have "(storyId, r) \<in> set (ownProps out')"
      by (simp add: processFile_def)
    from buildStories_records[OF b this] obtain key sd acts where
      k: "storyId = generateStoryId (VStr []) (VStr key)"
      and r: "r = storyRecord (t_meta t) (code f) (''./'' @ relPath f) storyId key sd acts"
      using t by auto
    from id_prefix[of key] k have p: "take 2 storyId = ''--''" by auto
    have 1: "js_get r ''title'' = VStr ''Unknown''"
      by (simp add: r storyRecord_title t js_or_def)
    have 2: "js_get r ''kind'' = VStr ''Unknown''"
      by (simp add: r storyRecord_kind t js_or_def)
    have 3: "js_get r ''id'' = VStr storyId" by (simp add: r storyRecord_id)
    from 1 2 3 k p show ?thesis by blast
  qed
qed

text \<open>The file \<open>untitledFile\<close>, whose default export is an identifier, yields a record.\<close>

theorem untitled_meta_is_Unknown_witness:
  "parseResult untitledFile = Inr
       [ExportDefaultDeclaration (Identifier ''meta''),
        ExportNamedDeclaration (Some (VariableDeclaration [Identifier ''Primary'']))]
   \<and> \<not> hasTruthyTitle (Identifier ''meta'')
   \<and> map fst (js_entries (fst (processFile clean untitledFile (VObj [])))) = [''--primary'']
   \<and> list_all (\<lambda>(storyId, r). js_get r ''title'' = VStr ''Unknown''
                  \<and> js_get r ''kind'' = VStr ''Unknown'' \<and> take 2 storyId = ''--'')
       (js_entries (fst (processFile clean untitledFile (VObj []))))"
proof -
  have h1: "parseResult untitledFile = Inr
       [ExportDefaultDeclaration (Identifier ''meta''),
        ExportNamedDeclaration (Some (VariableDeclaration [Identifier ''Primary'']))]"
    by (simp add: untitledFile_def)
  have h0: "\<not> hasTruthyTitle (Identifier ''meta'')" by simp
  have h2: "\<forall>d. ExportDefaultDeclaration d \<in> set
       [ExportDefaultDeclaration (Identifier ''meta''),
        ExportNamedDeclaration (Some (VariableDeclaration [Identifier ''Primary'']))]
         \<longrightarrow> \<not> hasTruthyTitle d"
    by simp
  have ne: "map fst (js_entries (fst (processFile clean untitledFile (VObj []))))
              = [''--primary'']"
    by code_simp
  have "list_all (\<lambda>(storyId, r). js_get r ''title'' = VStr ''Unknown''
                  \<and> js_get r ''kind'' = VStr ''Unknown'' \<and> take 2 storyId = ''--'')
       (js_entries (fst (processFile clean untitledFile (VObj []))))"
    using untitled_meta_is_Unknown[OF h1 h2, of _ _ clean] by (auto simp: list_all_iff)
  with h1 h0 ne show ?thesis by blast
qed

text \<open>
  A title that is the numeric literal \<^verbatim>\<open>42\<close> is not a string literal; the record
  keeps the number as title and kind, and its id starts with it. The same holds for the
  literals \<^verbatim>\<open>true\<close>, \<^verbatim>\<open>1e21\<close> and \<^verbatim>\<open>1.5\<close>, which the id prints as
  \<^verbatim>\<open>true\<close>, \<^verbatim>\<open>1e+21\<close> and \<^verbatim>\<open>1.5\<close> before it strips \<^verbatim>\<open>+\<close> and \<^verbatim>\<open>.\<close>.
\<close>

theorem numeric_title_kept:
  "map (\<lambda>titleNode.
          map (\<lambda>(storyId, r). (storyId, js_get r ''title'', js_get r ''kind''))
            (js_entries (fst (processFile clean (literalTitledFile titleNode) (VObj [])))))
     [NumericLiteral ''42'', BooleanLiteral True, NumericLiteral ''1e+21'',
      NumericLiteral ''1.5'']
   = [[(''42--primary'', VNum ''42'', VNum ''42'')],
      [(''true--primary'', VBool True, VBool True)],
      [(''1e21--primary'', VNum ''1e+21'', VNum ''1e+21'')],
      [(''15--primary'', VNum ''1.5'', VNum ''1.5'')]]"
  by code_simp

section \<open>Extraction from source files\<close>

text \<open>
  Claim C5. A run over the one file of the example scenario yields a catalog with one
  record, stored under \<^verbatim>\<open>components-button--primary\<close>, whose \<^verbatim>\<open>id\<close> is that string,
  whose \<^verbatim>\<open>args\<close> are \<^verbatim>\<open>{ variant: "primary", disabled: false }\<close> and whose
  \<^verbatim>\<open>argTypes.variant.control.type\<close> is \<^verbatim>\<open>"select"\<close>.
\<close>

theorem button_example:
  "map_option
     (\<lambda>cat. (totalStories cat,
        map (\<lambda>(storyId, r). (storyId, js_get r ''id'', js_get r ''args'',
               js_get (js_get (js_get (js_get r ''argTypes'') ''variant'') ''control'')
                 ''type''))
          (stories cat)))
     (extractFromSourceFiles
        \<lparr>parserInstalled = True, srcDirExists = True,
         globResult = Some [\<lparr>relPath = p, code = c, parseResult = Inr buttonStories\<rparr>],
         clock = t, builtIndex = b, liveIndex = l, puppeteerInstalled = u,
         browserStarts = s, storybookLoads = sl, evaluateStory = ev\<rparr>)
   = Some (1, [(''components-button--primary'', VStr ''components-button--primary'',
        VObj [(''variant'', VStr ''primary''), (''disabled'', VBool False)],
        VStr ''select'')])"
  by code_simp

text \<open>
  A file that the parser rejects leaves the catalog and \<^verbatim>\<open>Object.prototype\<close> as they
  were and ends in the warning; a run gives the same result without such files, and with
  the parser packages and the source directory in place it always returns a catalog.
\<close>

lemma processFile_unparsable:
  "parseResult f = Inl e \<Longrightarrow> processFile pol f out = (out, pol, Some e)"
  by (simp add: processFile_def)

lemma processFiles_skip_unparsable:
  "processFiles fs pol out = processFiles (filter (\<lambda>f. \<not> isl (parseResult f)) fs) pol out"
proof (induction fs arbitrary: pol out)
  case Nil
  then show ?case by simp
next
  case (Cons f fs)
  show ?case
  proof (cases "parseResult f")
    case (Inl e)
    then show ?thesis using Cons.IH by (simp add: processFile_unparsable)
  next
    case (Inr visits)
    then show ?thesis using Cons.IH by (simp split: prod.splits)
  qed
qed

lemma run_returns_catalog:
  "parserInstalled w \<Longrightarrow> srcDirExists w \<Longrightarrow> globResult w = Some fs \<Longrightarrow>
   \<exists>cat. extractFromSourceFiles w = Some cat"
  by (simp add: extractFromSourceFiles_def)

text \<open>
  Claim C8, at the input where the code departs from it. The parser accepts
  \<open>sharedArgTypesFile\<close>, and the traversal finds its story \<^verbatim>\<open>Default\<close>; the
  \<^verbatim>\<open>argTypes\<close> entry \<^verbatim>\<open>size\<close> normalizes to \<^verbatim>\<open>null\<close>, reading \<^verbatim>\<open>config.action\<close>
  from it raises a TypeError, and the file ends in the \<^verbatim>\<open>catch\<close> with no record
  stored. The run over \<open>brokenFile\<close>, \<open>sharedArgTypesFile\<close> and \<open>buttonFile\<close> returns a
  catalog with the record of the story of \<open>buttonFile\<close> alone: the story
  \<^verbatim>\<open>components-card--default\<close> of a file that parses is missing.
\<close>

theorem parsed_file_loses_its_stories:
  "(case parseResult sharedArgTypesFile of
      Inl e \<Rightarrow> False
    | Inr visits \<Rightarrow>
        (case traverse visits (clean, initialTraversal) of
           (pol, Inl e) \<Rightarrow> False
         | (pol, Inr t) \<Rightarrow>
             map fst (t_stories t) = [''Default'']
             \<and> meta_argTypes (t_meta t) = VObj [(''size'', VNull)]
             \<and> generateStoryId (meta_title (t_meta t)) (VStr ''Default'')
                 = ''components-card--default''))
   \<and> extractActionsFromArgs clean (VObj []) (VObj [(''size'', VNull)]) = Inl TypeError
   \<and> processFile clean sharedArgTypesFile (VObj []) = (VObj [], clean, Some TypeError)
   \<and> map_option
        (\<lambda>cat. (totalStories cat,
           map (\<lambda>(storyId, r). (storyId, js_get r ''title'', js_get r ''name'',
                  js_get r ''args''))
             (stories cat)))
        (extractFromSourceFiles mixedWorld)
       = Some (1, [(''components-button--primary'', VStr ''Components/Button'',
            VStr ''Primary'',
            VObj [(''variant'', VStr ''primary''), (''disabled'', VBool False)])])"
  by code_simp

section \<open>The strategies and their selection\<close>

lemma source_count:
  "extractFromSourceFiles w = Some cat \<Longrightarrow> totalStories cat = length (stories cat)"
proof -
  assume a: "extractFromSourceFiles w = Some cat"
  then obtain fs where fs: "globResult w = Some fs"
    by (auto simp: extractFromSourceFiles_def split: if_splits option.splits)
  have "isRecord (fst (processFiles fs clean (VObj [])))"
    by (rule processFiles_record) simp
  then have "js_entries (fst (processFiles fs clean (VObj [])))
               = ownProps (fst (processFiles fs clean (VObj [])))"
    by (rule entries_record)
  with a fs show ?thesis
    by (auto simp: extractFromSourceFiles_def withStories_def split: if_splits)
qed

lemma saved_count: "main args w = Saved cat \<Longrightarrow> totalStories cat = length (stories cat)"
  by (auto simp: main_def enhance_def finish_def saveMetadata_def
      split: if_splits option.splits sum.splits)

lemma built_provenance:
  "extractFromBuiltStorybook w = Some cat \<Longrightarrow> extractedFrom cat = ''built-storybook''"
  by (auto simp: extractFromBuiltStorybook_def createMetadataStructure_def withStories_def
      split: option.splits sum.splits if_splits)

lemma source_provenance:
  "extractFromSourceFiles w = Some cat \<Longrightarrow> extractedFrom cat = ''source-files''"
  by (auto simp: extractFromSourceFiles_def createMetadataStructure_def withStories_def
      split: option.splits if_splits)

lemma deep_provenance:
  "extractDeepMetadataWithBrowser w pol se = Inr (Some cat) \<Longrightarrow>
   extractedFrom cat = ''running-storybook-deep''"
  by (auto simp: extractDeepMetadataWithBrowser_def createMetadataStructure_def
      withStories_def split: sum.splits if_splits)

lemma deep_exception:
  "extractDeepMetadataWithBrowser w pol se = Inl e \<longleftrightarrow>
   puppeteerInstalled w \<and> \<not> browserStarts w \<and> e = OtherError"
  by (auto simp: extractDeepMetadataWithBrowser_def split: sum.splits if_splits)

lemma basicStories_isl:
  "isl (basicStories es out) = list_ex (\<lambda>e. snd e = VNull \<or> snd e = VUndefined) es"
proof (induction es arbitrary: out)
  case Nil
  then show ?case by simp
next
  case (Cons e es)
  obtain k c where e: "e = (k, c)" by (cases e)
  show ?case
  proof (cases "c = VNull \<or> c = VUndefined")
    case True
    then show ?thesis by (auto simp: e basicRecord_def)
  next
    case False
    then show ?thesis using Cons.IH by (simp add: e basicRecord_def)
  qed
qed

lemma basicStories_error: "basicStories es out = Inl e \<Longrightarrow> e = TypeError"
  by (induction es arbitrary: out) (auto simp: basicRecord_def split: if_splits)

text \<open>
  Claim C1, at the input where the code departs from it. In \<open>builtOnlyWorld\<close> the built
  index has one entry; the catalog that \<^verbatim>\<open>extractFromBuiltStorybook\<close> returns has one
  story and the count 0. (The other strategies set the count before they return, see
  \<open>source_count\<close>, and \<^verbatim>\<open>saveMetadata\<close> sets it in what is written, see \<open>saved_count\<close>.)
\<close>

theorem built_catalog_count_not_updated:
  "map_option (\<lambda>cat. (totalStories cat, length (stories cat)))
     (extractFromBuiltStorybook builtOnlyWorld) = Some (0, 1)"
  by code_simp

text \<open>What the selector returns once source-file parsing has given no story.\<close>

lemma selector_without_source:
  "\<not> hasStories (extractFromSourceFiles w) \<Longrightarrow>
   extractFromRunningStorybook w =
     (case extractBasicMetadataFromIndex w of
        None \<Rightarrow> Inr (extractFromBuiltStorybook w)
      | Some storyEntries \<Rightarrow>
          if js_entries storyEntries = [] then Inr (extractFromBuiltStorybook w)
          else case extractDeepMetadataWithBrowser w (sourcePollution w) storyEntries of
            Inl e \<Rightarrow> Inl e
          | Inr deepMetadata \<Rightarrow>
              if hasStories deepMetadata then Inr deepMetadata
              else case basicStories (js_entries storyEntries) (VObj []) of
                Inl e \<Rightarrow> Inl e
              | Inr sts \<Rightarrow>
                  Inr (Some ((withStories sts
                                (createMetadataStructure (clock w) ''storybook-index-basic''))
                               \<lparr>totalStories := length (js_entries sts)\<rparr>)))"
  by (simp add: extractFromRunningStorybook_def split: option.splits)

lemma selector_live:
  assumes "\<not> hasStories (extractFromSourceFiles w)"
    and "extractBasicMetadataFromIndex w = Some storyEntries"
    and "js_entries storyEntries \<noteq> []"
  shows "(puppeteerInstalled w \<and> \<not> browserStarts w
          \<or> (\<exists>deep. extractDeepMetadataWithBrowser w (sourcePollution w) storyEntries
                      = Inr deep))
    \<and> (puppeteerInstalled w \<and> \<not> browserStarts w \<longrightarrow>
          extractFromRunningStorybook w = Inl OtherError)
    \<and> (\<forall>deep. extractDeepMetadataWithBrowser w (sourcePollution w) storyEntries = Inr deep
               \<and> hasStories deep \<longrightarrow>
          extractFromRunningStorybook w = Inr deep
          \<and> map_option extractedFrom deep = Some ''running-storybook-deep'')
    \<and> (\<forall>deep. extractDeepMetadataWithBrowser w (sourcePollution w) storyEntries = Inr deep
               \<and> \<not> hasStories deep \<longrightarrow>
          (if list_ex (\<lambda>entry. snd entry = VNull \<or> snd entry = VUndefined)
                (js_entries storyEntries)
           then extractFromRunningStorybook w = Inl TypeError
           else \<exists>cat. extractFromRunningStorybook w = Inr (Some cat)
                  \<and> extractedFrom cat = ''storybook-index-basic''))"
proof -
  let ?D = "extractDeepMetadataWithBrowser w (sourcePollution w) storyEntries"
  note R = selector_without_source[OF assms(1)]
  have 1: "puppeteerInstalled w \<and> \<not> browserStarts w \<or> (\<exists>deep. ?D = Inr deep)"
    using deep_exception[of w "sourcePollution w" storyEntries] by (cases ?D) auto
  have 2: "extractFromRunningStorybook w = Inl OtherError"
    if "puppeteerInstalled w \<and> \<not> browserStarts w"
  proof -
    from that have "?D = Inl OtherError" by (simp add: deep_exception)
    then show ?thesis using assms(2,3) by (simp add: R)
  qed
  have 3: "extractFromRunningStorybook w = Inr deep
           \<and> map_option extractedFrom deep = Some ''running-storybook-deep''"
    if "?D = Inr deep \<and> hasStories deep" for deep
  proof -
    from that obtain cat where c: "deep = Some cat" by (cases deep) (auto simp: hasStories_def)
    with that have "extractedFrom cat = ''running-storybook-deep''"
      using deep_provenance[of w "sourcePollution w" storyEntries cat] by simp
    with that c show ?thesis using assms(2,3) by (simp add: R)
  qed
  have 4: "if list_ex (\<lambda>entry. snd entry = VNull \<or> snd entry = VUndefined)
                (js_entries storyEntries)
           then extractFromRunningStorybook w = Inl TypeError
           else \<exists>cat. extractFromRunningStorybook w = Inr (Some cat)
                  \<and> extractedFrom cat = ''storybook-index-basic''"
    if d: "?D = Inr deep \<and> \<not> hasStories deep" for deep
  proof (cases "basicStories (js_entries storyEntries) (VObj [])")
    case (Inl e)
    then have "e = TypeError" by (rule basicStories_error)
    moreover from Inl have "list_ex (\<lambda>entry. snd entry = VNull \<or> snd entry = VUndefined)
                (js_entries storyEntries)"
      using basicStories_isl[of "js_entries storyEntries" "VObj []"] by simp
    ultimately show ?thesis using d Inl assms(2,3) by (simp add: R)
  next
    case (Inr sts)
    then have "\<not> list_ex (\<lambda>entry. snd entry = VNull \<or> snd entry = VUndefined)
                (js_entries storyEntries)"
      using basicStories_isl[of "js_entries storyEntries" "VObj []"] by simp
    then show ?thesis using d Inr assms(2,3)
      by (simp add: R createMetadataStructure_def withStories_def)
  qed
  from 1 2 3 4 show ?thesis by blast
qed

text \<open>
  Claim C3, as amended. When source-file parsing yields a catalog with stories, the
  selector returns that catalog, whose provenance is \<^verbatim>\<open>source-files\<close>. When it yields
  \<^verbatim>\<open>null\<close> or no story, the selector asks the running server for its index next. When
  that index cannot be fetched or lists no story, the selector returns what the
  built-index strategy returns, and a catalog returned there has the provenance
  \<^verbatim>\<open>built-storybook\<close>. When the index lists stories, the selector does not return the
  result of the built-index strategy: a browser launch that fails is an exception that
  leaves the selector; otherwise the deep strategy has a result, which the selector
  returns when it is a catalog with stories, of provenance \<^verbatim>\<open>running-storybook-deep\<close>;
  when it is not, the selector builds the basic catalog, of provenance
  \<^verbatim>\<open>storybook-index-basic\<close>, unless an index entry is \<^verbatim>\<open>null\<close>, which raises a
  TypeError that leaves the selector. So a catalog of provenance \<^verbatim>\<open>built-storybook\<close>
  is returned only when source-file parsing gave no story and the server's index could
  not be fetched or listed no story.
\<close>

theorem selector_fallback_order:
  "(hasStories (extractFromSourceFiles w) \<longrightarrow>
      extractFromRunningStorybook w = Inr (extractFromSourceFiles w)
      \<and> map_option extractedFrom (extractFromSourceFiles w) = Some ''source-files'')
   \<and> (\<not> hasStories (extractFromSourceFiles w)
        \<and> (extractBasicMetadataFromIndex w = None
             \<or> (\<exists>storyEntries. extractBasicMetadataFromIndex w = Some storyEntries
                   \<and> js_entries storyEntries = [])) \<longrightarrow>
      extractFromRunningStorybook w = Inr (extractFromBuiltStorybook w))
   \<and> (\<forall>cat. extractFromBuiltStorybook w = Some cat \<longrightarrow>
         extractedFrom cat = ''built-storybook'')
   \<and> (\<forall>storyEntries.
        \<not> hasStories (extractFromSourceFiles w)
        \<and> extractBasicMetadataFromIndex w = Some storyEntries
        \<and> js_entries storyEntries \<noteq> [] \<longrightarrow>
          extractFromRunningStorybook w \<noteq> Inr (extractFromBuiltStorybook w)
        \<and> (puppeteerInstalled w \<and> \<not> browserStarts w
            \<or> (\<exists>deep. extractDeepMetadataWithBrowser w (sourcePollution w) storyEntries
                        = Inr deep))
        \<and> (puppeteerInstalled w \<and> \<not> browserStarts w \<longrightarrow>
             extractFromRunningStorybook w = Inl OtherError)
        \<and> (\<forall>deep. extractDeepMetadataWithBrowser w (sourcePollution w) storyEntries
                     = Inr deep
                   \<and> hasStories deep \<longrightarrow>
             extractFromRunningStorybook w = Inr deep
             \<and> map_option extractedFrom deep = Some ''running-storybook-deep'')
        \<and> (\<forall>deep. extractDeepMetadataWithBrowser w (sourcePollution w) storyEntries
                     = Inr deep
                   \<and> \<not> hasStories deep \<longrightarrow>
             (if list_ex (\<lambda>entry. snd entry = VNull \<or> snd entry = VUndefined)
                   (js_entries storyEntries)
              then extractFromRunningStorybook w = Inl TypeError
              else \<exists>cat. extractFromRunningStorybook w = Inr (Some cat)
                     \<and> extractedFrom cat = ''storybook-index-basic'')))
   \<and> (\<forall>cat. extractFromRunningStorybook w = Inr (Some cat)
            \<and> extractedFrom cat = ''built-storybook'' \<longrightarrow>
        \<not> hasStories (extractFromSourceFiles w)
        \<and> extractFromBuiltStorybook w = Some cat
        \<and> (extractBasicMetadataFromIndex w = None
             \<or> (\<exists>storyEntries. extractBasicMetadataFromIndex w = Some storyEntries
                   \<and> js_entries storyEntries = [])))"
proof -
  let ?R = "extractFromRunningStorybook w" and ?B = "extractFromBuiltStorybook w"
  let ?S = "extractFromSourceFiles w" and ?L = "extractBasicMetadataFromIndex w"
  have 1: "?R = Inr ?S \<and> map_option extractedFrom ?S = Some ''source-files''"
    if "hasStories ?S"
  proof -
    from that obtain cat where "?S = Some cat" by (cases ?S) (auto simp: hasStories_def)
    then have "map_option extractedFrom ?S = Some ''source-files''"
      using source_provenance[of w cat] by simp
    moreover have "?R = Inr ?S" using that by (simp add: extractFromRunningStorybook_def)
    ultimately show ?thesis by simp
  qed
  have 2: "?R = Inr ?B"
    if "\<not> hasStories ?S \<and> (?L = None \<or> (\<exists>storyEntries. ?L = Some storyEntries
                   \<and> js_entries storyEntries = []))"
    using that by (auto simp: selector_without_source)
  have 3: "\<forall>cat. ?B = Some cat \<longrightarrow> extractedFrom cat = ''built-storybook''"
    using built_provenance by blast
  have notbuilt: "\<not> (?R = Inr (Some cat) \<and> extractedFrom cat = ''built-storybook'')"
    if h: "\<not> hasStories ?S" "?L = Some storyEntries" "js_entries storyEntries \<noteq> []"
    for storyEntries cat
  proof
    assume a: "?R = Inr (Some cat) \<and> extractedFrom cat = ''built-storybook''"
    note L = selector_live[OF h]
    from L a have "\<exists>deep. extractDeepMetadataWithBrowser w (sourcePollution w) storyEntries
                      = Inr deep"
      by auto
    then obtain deep where
      d: "extractDeepMetadataWithBrowser w (sourcePollution w) storyEntries = Inr deep"
      by blast
    show False
    proof (cases "hasStories deep")
      case True
      with L d have "?R = Inr deep"
        and "map_option extractedFrom deep = Some ''running-storybook-deep''"
        by blast+
      with a show False by auto
    next
      case False
      with L d have "if list_ex (\<lambda>entry. snd entry = VNull \<or> snd entry = VUndefined)
                (js_entries storyEntries)
           then extractFromRunningStorybook w = Inl TypeError
           else \<exists>cat. extractFromRunningStorybook w = Inr (Some cat)
                  \<and> extractedFrom cat = ''storybook-index-basic''"
        by blast
      with a show False by (auto split: if_splits)
    qed
  qed
  have 4: "?R \<noteq> Inr ?B"
    if h: "\<not> hasStories ?S" "?L = Some storyEntries" "js_entries storyEntries \<noteq> []"
    for storyEntries
  proof
    assume e: "?R = Inr ?B"
    show False
    proof (cases ?B)
      case None
      note L = selector_live[OF h]
      from L e None obtain deep where
        d: "extractDeepMetadataWithBrowser w (sourcePollution w) storyEntries = Inr deep"
        by auto
      show False
      proof (cases "hasStories deep")
        case True
        with L d have "?R = Inr deep" by blast
        with e None True show False by (simp add: hasStories_def)
      next
        case False
        with L d have "if list_ex (\<lambda>entry. snd entry = VNull \<or> snd entry = VUndefined)
                (js_entries storyEntries)
           then extractFromRunningStorybook w = Inl TypeError
           else \<exists>cat. extractFromRunningStorybook w = Inr (Some cat)
                  \<and> extractedFrom cat = ''storybook-index-basic''"
          by blast
        with e None show False by (auto split: if_splits)
      qed
    next
      case (Some cat)
      with e built_provenance[of w cat]
      have "?R = Inr (Some cat) \<and> extractedFrom cat = ''built-storybook''" by simp
      with notbuilt[OF h] show False by blast
    qed
  qed
  have 5: "\<not> hasStories ?S \<and> ?B = Some cat
        \<and> (?L = None \<or> (\<exists>storyEntries. ?L = Some storyEntries
                   \<and> js_entries storyEntries = []))"
    if a: "?R = Inr (Some cat) \<and> extractedFrom cat = ''built-storybook''" for cat
  proof -
    have s: "\<not> hasStories ?S"
    proof
      assume "hasStories ?S"
      from 1[OF this] a show False by auto
    qed
    have l: "?L = None \<or> (\<exists>storyEntries. ?L = Some storyEntries
                   \<and> js_entries storyEntries = [])"
    proof (cases ?L)
      case None
      then show ?thesis by simp
    next
      case (Some storyEntries)
      with notbuilt[OF s Some, of cat] a show ?thesis by blast
    qed
    with s have "?R = Inr ?B" using 2 by blast
    with a have "?B = Some cat" by simp
    with s l show ?thesis by blast
  qed
  have 6: "\<forall>storyEntries.
        \<not> hasStories ?S \<and> ?L = Some storyEntries \<and> js_entries storyEntries \<noteq> [] \<longrightarrow>
          ?R \<noteq> Inr ?B
        \<and> (puppeteerInstalled w \<and> \<not> browserStarts w
            \<or> (\<exists>deep. extractDeepMetadataWithBrowser w (sourcePollution w) storyEntries
                        = Inr deep))
        \<and> (puppeteerInstalled w \<and> \<not> browserStarts w \<longrightarrow> ?R = Inl OtherError)
        \<and> (\<forall>deep. extractDeepMetadataWithBrowser w (sourcePollution w) storyEntries
                     = Inr deep
                   \<and> hasStories deep \<longrightarrow>
             ?R = Inr deep
             \<and> map_option extractedFrom deep = Some ''running-storybook-deep'')
        \<and> (\<forall>deep. extractDeepMetadataWithBrowser w (sourcePollution w) storyEntries
                     = Inr deep
                   \<and> \<not> hasStories deep \<longrightarrow>
             (if list_ex (\<lambda>entry. snd entry = VNull \<or> snd entry = VUndefined)
                   (js_entries storyEntries)
              then ?R = Inl TypeError
              else \<exists>cat. ?R = Inr (Some cat)
                     \<and> extractedFrom cat = ''storybook-index-basic''))"
  proof (intro allI impI, elim conjE)
    fix storyEntries
    assume h: "\<not> hasStories ?S" "?L = Some storyEntries" "js_entries storyEntries \<noteq> []"
    from 4[OF h] selector_live[OF h]
    show "?R \<noteq> Inr ?B
        \<and> (puppeteerInstalled w \<and> \<not> browserStarts w
            \<or> (\<exists>deep. extractDeepMetadataWithBrowser w (sourcePollution w) storyEntries
                        = Inr deep))
        \<and> (puppeteerInstalled w \<and> \<not> browserStarts w \<longrightarrow> ?R = Inl OtherError)
        \<and> (\<forall>deep. extractDeepMetadataWithBrowser w (sourcePollution w) storyEntries
                     = Inr deep
                   \<and> hasStories deep \<longrightarrow>
             ?R = Inr deep
             \<and> map_option extractedFrom deep = Some ''running-storybook-deep'')
        \<and> (\<forall>deep. extractDeepMetadataWithBrowser w (sourcePollution w) storyEntries
                     = Inr deep
                   \<and> \<not> hasStories deep \<longrightarrow>
             (if list_ex (\<lambda>entry. snd entry = VNull \<or> snd entry = VUndefined)
                   (js_entries storyEntries)
              then ?R = Inl TypeError
              else \<exists>cat. ?R = Inr (Some cat)
                     \<and> extractedFrom cat = ''storybook-index-basic''))"
      by (rule conjI)
  qed
  have 1: "hasStories ?S \<longrightarrow>
      ?R = Inr ?S \<and> map_option extractedFrom ?S = Some ''source-files''"
    using 1 by blast
  have 2: "\<not> hasStories ?S \<and> (?L = None \<or> (\<exists>storyEntries. ?L = Some storyEntries
                   \<and> js_entries storyEntries = [])) \<longrightarrow> ?R = Inr ?B"
    using 2 by blast
  have 5: "\<forall>cat. ?R = Inr (Some cat) \<and> extractedFrom cat = ''built-storybook'' \<longrightarrow>
        \<not> hasStories ?S \<and> ?B = Some cat
        \<and> (?L = None \<or> (\<exists>storyEntries. ?L = Some storyEntries
                   \<and> js_entries storyEntries = []))"
    using 5 by blast
  show ?thesis by (intro conjI 1 2 3 6 5)
qed

text \<open>
  The five cases occur. In \<open>sourceWorld\<close> the source files yield a story. In
  \<open>builtOnlyWorld\<close> they yield nothing, no server answers, and the built index is used.
  In \<open>liveWorld\<close>, \<open>deepWorld\<close> and \<open>launchFailsWorld\<close> a server lists one story: without
  puppeteer the basic catalog is returned, with a working browser the deep one, whose
  \<^verbatim>\<open>args\<close> come from the browser, and a failing browser launch is an exception.
\<close>

theorem selector_fallback_order_witness:
  "hasStories (extractFromSourceFiles sourceWorld)
   \<and> extractFromRunningStorybook sourceWorld = Inr (extractFromSourceFiles sourceWorld)
   \<and> map_option extractedFrom (extractFromSourceFiles sourceWorld) = Some ''source-files''
   \<and> \<not> hasStories (extractFromSourceFiles builtOnlyWorld)
   \<and> extractBasicMetadataFromIndex builtOnlyWorld = None
   \<and> extractFromRunningStorybook builtOnlyWorld
       = Inr (extractFromBuiltStorybook builtOnlyWorld)
   \<and> map_option extractedFrom (extractFromBuiltStorybook builtOnlyWorld)
       = Some ''built-storybook''
   \<and> \<not> hasStories (extractFromSourceFiles liveWorld)
   \<and> map_option (\<lambda>storyEntries. map fst (js_entries storyEntries))
        (extractBasicMetadataFromIndex liveWorld) = Some [''components-button--primary'']
   \<and> \<not> puppeteerInstalled liveWorld
   \<and> extractFromRunningStorybook liveWorld \<noteq> Inr (extractFromBuiltStorybook liveWorld)
   \<and> (\<exists>cat. extractFromRunningStorybook liveWorld = Inr (Some cat)
          \<and> extractedFrom cat = ''storybook-index-basic'')
   \<and> \<not> hasStories (extractFromSourceFiles deepWorld)
   \<and> map_option (\<lambda>storyEntries. map fst (js_entries storyEntries))
        (extractBasicMetadataFromIndex deepWorld) = Some [''components-button--primary'']
   \<and> puppeteerInstalled deepWorld \<and> browserStarts deepWorld \<and> storybookLoads deepWorld
   \<and> (\<exists>cat. extractFromRunningStorybook deepWorld = Inr (Some cat)
          \<and> extractedFrom cat = ''running-storybook-deep''
          \<and> map (\<lambda>(storyId, r). (storyId, js_get r ''args'')) (stories cat)
              = [(''components-button--primary'', VObj [(''variant'', VStr ''primary'')])])
   \<and> \<not> hasStories (extractFromSourceFiles launchFailsWorld)
   \<and> map_option (\<lambda>storyEntries. map fst (js_entries storyEntries))
        (extractBasicMetadataFromIndex launchFailsWorld)
       = Some [''components-button--primary'']
   \<and> puppeteerInstalled launchFailsWorld \<and> \<not> browserStarts launchFailsWorld
   \<and> extractFromRunningStorybook launchFailsWorld = Inl OtherError"
proof -
  define E where "E = VObj
     [(''components-button--primary'', VObj
        [(''id'', VStr ''components-button--primary''),
         (''title'', VStr ''Components/Button''),
         (''name'', VStr ''Primary''),
         (''importPath'', VStr ''./src/Button.stories.js''),
         (''type'', VStr ''story''),
         (''tags'', VArr [VStr ''story''])])]"
  have ne: "js_entries E \<noteq> []" by (simp add: E_def)
  have nn: "\<not> list_ex (\<lambda>entry. snd entry = VNull \<or> snd entry = VUndefined) (js_entries E)"
    by (simp add: E_def)
  have ks: "map fst (js_entries E) = [''components-button--primary'']" by (simp add: E_def)
  have s1: "hasStories (extractFromSourceFiles sourceWorld)" by code_simp
  from selector_fallback_order[of sourceWorld, THEN conjunct1] s1
  have s2: "extractFromRunningStorybook sourceWorld = Inr (extractFromSourceFiles sourceWorld)"
    and s3: "map_option extractedFrom (extractFromSourceFiles sourceWorld)
               = Some ''source-files''"
    by blast+
  have b1: "\<not> hasStories (extractFromSourceFiles builtOnlyWorld)" by code_simp
  have b2: "extractBasicMetadataFromIndex builtOnlyWorld = None" by code_simp
  from selector_fallback_order[of builtOnlyWorld, THEN conjunct2, THEN conjunct1] b1 b2
  have b3: "extractFromRunningStorybook builtOnlyWorld
              = Inr (extractFromBuiltStorybook builtOnlyWorld)"
    by blast
  have "extractFromBuiltStorybook builtOnlyWorld \<noteq> None" by code_simp
  then obtain bc where bc: "extractFromBuiltStorybook builtOnlyWorld = Some bc" by blast
  from selector_fallback_order[of builtOnlyWorld, THEN conjunct2, THEN conjunct2,
      THEN conjunct1] bc
  have "extractedFrom bc = ''built-storybook''" by blast
  with bc have b4: "map_option extractedFrom (extractFromBuiltStorybook builtOnlyWorld)
                      = Some ''built-storybook''"
    by simp
  have l1: "\<not> hasStories (extractFromSourceFiles liveWorld)" by code_simp
  have l2: "extractBasicMetadataFromIndex liveWorld = Some E" unfolding E_def by code_simp
  have l3: "\<not> puppeteerInstalled liveWorld" by (simp add: liveWorld_def)
  have l4: "extractDeepMetadataWithBrowser liveWorld (sourcePollution liveWorld) E = Inr None"
    by (simp add: extractDeepMetadataWithBrowser_def l3)
  have l5: "\<not> hasStories None" by (simp add: hasStories_def)
  note L = selector_fallback_order[of liveWorld, THEN conjunct2, THEN conjunct2,
      THEN conjunct2, THEN conjunct1, THEN spec, of E]
  from L l1 l2 ne
  have l6: "extractFromRunningStorybook liveWorld \<noteq> Inr (extractFromBuiltStorybook liveWorld)"
    by blast
  from L l1 l2 ne l4 l5
  have "if list_ex (\<lambda>entry. snd entry = VNull \<or> snd entry = VUndefined) (js_entries E)
        then extractFromRunningStorybook liveWorld = Inl TypeError
        else \<exists>cat. extractFromRunningStorybook liveWorld = Inr (Some cat)
               \<and> extractedFrom cat = ''storybook-index-basic''"
    by blast
  with nn have l7: "\<exists>cat. extractFromRunningStorybook liveWorld = Inr (Some cat)
               \<and> extractedFrom cat = ''storybook-index-basic''"
    by simp
  have l8: "map_option (\<lambda>storyEntries. map fst (js_entries storyEntries))
        (extractBasicMetadataFromIndex liveWorld) = Some [''components-button--primary'']"
    by (simp add: l2 ks)
  have d1: "\<not> hasStories (extractFromSourceFiles deepWorld)" by code_simp
  have d2: "extractBasicMetadataFromIndex deepWorld = Some E" unfolding E_def by code_simp
  have d3: "puppeteerInstalled deepWorld \<and> browserStarts deepWorld \<and> storybookLoads deepWorld"
    by (simp add: deepWorld_def)
  have d4: "case extractDeepMetadataWithBrowser deepWorld (sourcePollution deepWorld) E of
              Inr (Some cat) \<Rightarrow>
                0 < totalStories cat
                \<and> map (\<lambda>(storyId, r). (storyId, js_get r ''args'')) (stories cat)
                    = [(''components-button--primary'',
                        VObj [(''variant'', VStr ''primary'')])]
            | _ \<Rightarrow> False"
    unfolding E_def by code_simp
  then obtain dc where
    dc: "extractDeepMetadataWithBrowser deepWorld (sourcePollution deepWorld) E
           = Inr (Some dc)"
    and dn: "0 < totalStories dc"
    and da: "map (\<lambda>(storyId, r). (storyId, js_get r ''args'')) (stories dc)
               = [(''components-button--primary'', VObj [(''variant'', VStr ''primary'')])]"
    by (auto split: sum.splits option.splits)
  from dn have dh: "hasStories (Some dc)" by (simp add: hasStories_def)
  note D = selector_fallback_order[of deepWorld, THEN conjunct2, THEN conjunct2,
      THEN conjunct2, THEN conjunct1, THEN spec, of E]
  from D d1 d2 ne dc dh
  have "extractFromRunningStorybook deepWorld = Inr (Some dc)
        \<and> map_option extractedFrom (Some dc) = Some ''running-storybook-deep''"
    by blast
  with da have d5: "\<exists>cat. extractFromRunningStorybook deepWorld = Inr (Some cat)
          \<and> extractedFrom cat = ''running-storybook-deep''
          \<and> map (\<lambda>(storyId, r). (storyId, js_get r ''args'')) (stories cat)
              = [(''components-button--primary'', VObj [(''variant'', VStr ''primary'')])]"
    by simp
  have d6: "map_option (\<lambda>storyEntries. map fst (js_entries storyEntries))
        (extractBasicMetadataFromIndex deepWorld) = Some [''components-button--primary'']"
    by (simp add: d2 ks)
  have f1: "\<not> hasStories (extractFromSourceFiles launchFailsWorld)" by code_simp
  have f2: "extractBasicMetadataFromIndex launchFailsWorld = Some E"
    unfolding E_def by code_simp
  have f3: "puppeteerInstalled launchFailsWorld \<and> \<not> browserStarts launchFailsWorld"
    by (simp add: launchFailsWorld_def)
  note F = selector_fallback_order[of launchFailsWorld, THEN conjunct2, THEN conjunct2,
      THEN conjunct2, THEN conjunct1, THEN spec, of E]
  from F f1 f2 ne f3
  have f4: "extractFromRunningStorybook launchFailsWorld = Inl OtherError" by blast
  have f5: "map_option (\<lambda>storyEntries. map fst (js_entries storyEntries))
        (extractBasicMetadataFromIndex launchFailsWorld)
       = Some [''components-button--primary'']"
    by (simp add: f2 ks)
  from d3 have d3a: "puppeteerInstalled deepWorld" and d3b: "browserStarts deepWorld"
    and d3c: "storybookLoads deepWorld"
    by simp_all
  from f3 have f3a: "puppeteerInstalled launchFailsWorld"
    and f3b: "\<not> browserStarts launchFailsWorld"
    by simp_all
  show ?thesis
    by (intro conjI s1 s2 s3 b1 b2 b3 b4 l1 l8 l3 l6 l7 d1 d6 d3a d3b d3c d5 f1 f5 f3a f3b f4)
qed

text \<open>
  In \<open>liveWorld\<close> source-file parsing returns \<^verbatim>\<open>null\<close> and the built index would give a
  catalog with one story, but a server answers: the selector returns the catalog of the
  basic live strategy, with the provenance \<^verbatim>\<open>storybook-index-basic\<close> and the record
  of the basic strategy.
\<close>

theorem selector_prefers_live_index:
  "extractFromSourceFiles liveWorld = None
   \<and> map_option (\<lambda>cat. (extractedFrom cat, length (stories cat)))
       (extractFromBuiltStorybook liveWorld) = Some (''built-storybook'', 1)
   \<and> (case extractFromRunningStorybook liveWorld of
         Inr (Some cat) \<Rightarrow>
           extractedFrom cat = ''storybook-index-basic''
           \<and> map (\<lambda>(storyId, r). (storyId, js_get r ''title'', js_get r ''parameters''))
                 (stories cat)
               = [(''components-button--primary'', VStr ''Components/Button'',
                   VObj [(''fileName'', VStr ''./src/Button.stories.js'')])]
       | _ \<Rightarrow> False)"
  by code_simp

section \<open>The enhance flag\<close>

lemma running_provenance:
  assumes "extractFromRunningStorybook w = Inr (Some cat)"
  shows "extractedFrom cat \<noteq> ''running-storybook''"
proof (cases "hasStories (extractFromSourceFiles w)")
  case True
  with assms have "extractFromSourceFiles w = Some cat"
    by (simp add: extractFromRunningStorybook_def)
  then show ?thesis using source_provenance by fastforce
next
  case False
  note R = selector_without_source[OF False]
  show ?thesis
  proof (cases "extractBasicMetadataFromIndex w")
    case None
    with assms have "extractFromBuiltStorybook w = Some cat" by (simp add: R)
    then show ?thesis using built_provenance by fastforce
  next
    case (Some se)
    show ?thesis
    proof (cases "js_entries se = []")
      case True
      with assms Some have "extractFromBuiltStorybook w = Some cat" by (simp add: R)
      then show ?thesis using built_provenance by fastforce
    next
      case ne: False
      show ?thesis
      proof (cases "extractDeepMetadataWithBrowser w (sourcePollution w) se")
        case (Inl e)
        with assms Some ne show ?thesis by (simp add: R)
      next
        case (Inr deep)
        show ?thesis
        proof (cases "hasStories deep")
          case True
          with assms Some ne Inr have "deep = Some cat" by (simp add: R)
          with Inr show ?thesis using deep_provenance by fastforce
        next
          case nd: False
          with assms Some ne Inr show ?thesis
            by (auto simp: R createMetadataStructure_def withStories_def split: sum.splits)
        qed
      qed
    qed
  qed
qed

text \<open>
  No catalog of the selector carries the tag \<^verbatim>\<open>running-storybook\<close> that line 863 tests
  for, so with the flag a build run either fails or writes what it writes without it.
\<close>

lemma enhance_never_replaces:
  "main [''--build'', ''--enhance''] w = Exit1
   \<or> main [''--build'', ''--enhance''] w = main [''--build''] w"
proof -
  have m1: "modeOf [''--build'', ''--enhance''] = ''--build''" by code_simp
  have m2: "modeOf [''--build''] = ''--build''" by code_simp
  have e1: "List.member [''--build'', ''--enhance''] ''--enhance''" by code_simp
  have e2: "\<not> List.member [''--build''] ''--enhance''" by code_simp
  have d: "''--build'' \<noteq> ''--dev''" by simp
  show ?thesis
  proof (cases "extractFromBuiltStorybook w")
    case None
    then show ?thesis by (simp add: main_def m1 m2 d)
  next
    case (Some metadata)
    have "enhance w metadata = Exit1 \<or> enhance w metadata = finish (Some metadata)"
      using running_provenance[of w]
      by (auto simp: enhance_def split: sum.splits option.splits)
    then show ?thesis by (simp add: main_def m1 m2 d e1 e2 Some)
  qed
qed

text \<open>
  Claim C4, at the input where the code departs from it. In \<open>sourceWorld\<close> a build run
  with the enhance flag gets a catalog from the built index, and the retry returns a
  catalog with one story from the source files. What is written is still the catalog of
  the built index, with empty \<^verbatim>\<open>args\<close>, the same as without the flag.
\<close>

theorem enhance_result_discarded:
  "(case extractFromRunningStorybook sourceWorld of
      Inr (Some enhanced) \<Rightarrow>
        extractedFrom enhanced = ''source-files'' \<and> totalStories enhanced = 1
    | _ \<Rightarrow> False)
   \<and> (case main [''--build'', ''--enhance''] sourceWorld of
        Saved cat \<Rightarrow> extractedFrom cat = ''built-storybook''
          \<and> map (\<lambda>(storyId, r). js_get r ''args'') (stories cat) = [VObj []]
      | Exit1 \<Rightarrow> False)
   \<and> main [''--build'', ''--enhance''] sourceWorld = main [''--build''] sourceWorld"
  by code_simp

end
